theory Spec2Isabelle
  imports Main "HOL-Library.Sublist"
begin

section \<open>Python values\<close>

text \<open>
  Step parameters, context entries and result data are JSON-like scalars. The model keeps
  \<open>None\<close>, booleans, integers and strings; floats and containers are outside the model.
  Strings are ASCII texts.
\<close>

datatype pyval = PNone | PBool bool | PInt int | PStr string

text \<open>Python truthiness (\<open>if v:\<close>, \<open>not v\<close>, \<open>a or b\<close>).\<close>

fun truthy :: "pyval \<Rightarrow> bool" where
  "truthy PNone = False"
| "truthy (PBool b) = b"
| "truthy (PInt i) = (i \<noteq> 0)"
| "truthy (PStr s) = (s \<noteq> [])"

definition py_or :: "pyval \<Rightarrow> pyval \<Rightarrow> pyval" where
  "py_or a b = (if truthy a then a else b)"

text \<open>Decimal rendering of integers, as \<open>str\<close> and f-strings produce it.\<close>

definition digit_char :: "nat \<Rightarrow> char" where
  "digit_char d = char_of (48 + d)"

fun str_nat :: "nat \<Rightarrow> string" where
  "str_nat n = (if n < 10 then [digit_char n] else str_nat (n div 10) @ [digit_char (n mod 10)])"

declare str_nat.simps [simp del]

definition str_int :: "int \<Rightarrow> string" where
  "str_int i = (if i < 0 then CHR ''-'' # str_nat (nat (- i)) else str_nat (nat i))"

fun py_str :: "pyval \<Rightarrow> string" where
  "py_str PNone = ''None''"
| "py_str (PBool b) = (if b then ''True'' else ''False'')"
| "py_str (PInt i) = str_int i"
| "py_str (PStr s) = s"

text \<open>
  A dictionary with string keys: step parameters, the execution context, result data.
  \<open>dget d k\<close> is \<open>d.get(k)\<close>, which is \<open>None\<close> when the key is missing.
\<close>

type_synonym pydict = "string \<rightharpoonup> pyval"

definition dget :: "pydict \<Rightarrow> string \<Rightarrow> pyval" where
  "dget d k = (case d k of None \<Rightarrow> PNone | Some v \<Rightarrow> v)"

section \<open>Character classes and string helpers\<close>

text \<open>\<open>\w\<close> (with the redundant \<open>_\<close>) and \<open>\s\<close> of the \<open>re\<close> module, on ASCII.\<close>

definition is_word_char :: "char \<Rightarrow> bool" where
  "is_word_char c = (let n = (of_char c :: nat) in
     (48 \<le> n \<and> n \<le> 57) \<or> (65 \<le> n \<and> n \<le> 90) \<or> (97 \<le> n \<and> n \<le> 122) \<or> n = 95)"

definition is_space_char :: "char \<Rightarrow> bool" where
  "is_space_char c = (let n = (of_char c :: nat) in (9 \<le> n \<and> n \<le> 13) \<or> (28 \<le> n \<and> n \<le> 32))"

definition py_strip :: "string \<Rightarrow> string" where
  "py_strip s = rev (dropWhile is_space_char (rev (dropWhile is_space_char s)))"

definition lower_char :: "char \<Rightarrow> char" where
  "lower_char c = (let n = (of_char c :: nat) in if 65 \<le> n \<and> n \<le> 90 then char_of (n + 32) else c)"

definition py_lower :: "string \<Rightarrow> string" where
  "py_lower s = map lower_char s"

text \<open>\<open>needle in hay\<close> on strings.\<close>

fun py_in :: "string \<Rightarrow> string \<Rightarrow> bool" where
  "py_in needle [] = (needle = [])"
| "py_in needle (c # cs) = (prefix needle (c # cs) \<or> py_in needle cs)"

section \<open>Context resolver\<close>

text \<open>
  \<open>ActionAgent._resolve_context_variable\<close> substitutes with
  \<open>re.sub(r"\{\{\s*([\w_]+)\s*\}\}", replace_match, resolved_text)\<close>.
  \<open>match_ref\<close> is the match of that pattern at the head of a string: after the two
  opening braces, a run of whitespace, a non-empty run of word characters, a run of
  whitespace and the two closing braces. The character classes are disjoint and contain
  no brace, so each greedy run has exactly one length that lets the rest match and the
  backtracking matcher agrees with the maximal runs taken here. The result is the
  captured name and the text after the match.
\<close>

definition match_ref :: "string \<Rightarrow> (string \<times> string) option" where
  "match_ref s = (case s of
       c1 # c2 # r1 \<Rightarrow>
         if c1 = CHR ''{'' \<and> c2 = CHR ''{'' then
           (let r2 = dropWhile is_space_char r1;
                name = takeWhile is_word_char r2;
                r3 = dropWhile is_word_char r2;
                r4 = dropWhile is_space_char r3
            in if name = [] then None
               else (case r4 of
                       d1 # d2 # rest \<Rightarrow>
                         if d1 = CHR ''}'' \<and> d2 = CHR ''}'' then Some (name, rest) else None
                     | _ \<Rightarrow> None))
         else None
     | _ \<Rightarrow> None)"

text \<open>
  \<open>replace_match\<close>: \<open>str(context.get(var_name, f"{{{{{var_name}}}}}"))\<close>. The group is
  made of word characters only, so the \<open>strip()\<close> of the source changes nothing.
\<close>

definition replace_match :: "pydict \<Rightarrow> string \<Rightarrow> string" where
  "replace_match ctx var_name =
     (case ctx var_name of
        None \<Rightarrow> ''{{'' @ var_name @ ''}}''
      | Some v \<Rightarrow> py_str v)"

text \<open>
  One pass of \<open>re.sub\<close>: scan from the left; where the pattern matches, emit the
  replacement and continue after the match, otherwise keep the character and move on.
\<close>

function re_sub :: "pydict \<Rightarrow> string \<Rightarrow> string" where
  "re_sub ctx [] = []"
| "re_sub ctx (c # cs) =
     (case match_ref (c # cs) of
        Some (name, rest) \<Rightarrow> replace_match ctx name @ re_sub ctx rest
      | None \<Rightarrow> c # re_sub ctx cs)"
  by pat_completeness auto
termination
proof (relation "measure (\<lambda>(ctx, s). length s)")
  show "wf (measure (\<lambda>(ctx :: pydict, s :: string). length s))"
    by simp
next
  fix ctx :: pydict and c :: char and cs x2 name rest
  assume m: "match_ref (c # cs) = Some x2" and x2: "(name, rest) = x2"
  from m x2 obtain r1 where s: "c # cs = CHR ''{'' # CHR ''{'' # r1"
    by (auto simp: match_ref_def split: list.splits if_splits)
  define r4 where
    "r4 = dropWhile is_space_char (dropWhile is_word_char (dropWhile is_space_char r1))"
  have "length r4 \<le> length r1"
    unfolding r4_def by (meson length_dropWhile_le le_trans)
  moreover from m x2 s have "\<exists>d1 d2. r4 = d1 # d2 # rest"
    by (auto simp: match_ref_def Let_def r4_def split: list.splits if_splits)
  ultimately have "length rest < length (c # cs)"
    using s by auto
  then show "((ctx, rest), (ctx, c # cs)) \<in> measure (\<lambda>(ctx, s). length s)"
    by simp
next
  fix ctx :: pydict and c :: char and cs
  show "((ctx, cs), (ctx, c # cs)) \<in> measure (\<lambda>(ctx, s). length s)"
    by simp
qed

text \<open>
  The loop \<open>for _ in range(5)\<close> with its \<open>break\<close>. The second component counts the
  passes (calls of \<open>re.sub\<close>) performed.
\<close>

fun resolve_passes :: "nat \<Rightarrow> pydict \<Rightarrow> string \<Rightarrow> string \<times> nat" where
  "resolve_passes 0 ctx resolved_text = (resolved_text, 0)"
| "resolve_passes (Suc n) ctx resolved_text =
     (let new_text = re_sub ctx resolved_text
      in if new_text = resolved_text then (resolved_text, 1)
         else (case resolve_passes n ctx new_text of (r, k) \<Rightarrow> (r, Suc k)))"

text \<open>
  \<open>_resolve_context_variable\<close>: \<open>None\<close> stays \<open>None\<close>; on a value that is not a string
  \<open>re.sub\<close> raises \<open>TypeError\<close>, which the \<open>except\<close> clause turns into the template
  itself.
\<close>

fun resolve_context_variable :: "pyval \<Rightarrow> pydict \<Rightarrow> pyval" where
  "resolve_context_variable PNone context = PNone"
| "resolve_context_variable (PStr text_template) context =
     PStr (fst (resolve_passes 5 context text_template))"
| "resolve_context_variable v context = v"

text \<open>Whether the pattern matches anywhere in a string.\<close>

fun has_ref :: "string \<Rightarrow> bool" where
  "has_ref [] = False"
| "has_ref (c # cs) = (match_ref (c # cs) \<noteq> None \<or> has_ref cs)"

text \<open>The text of a reference: braces, optional whitespace around the name.\<close>

definition ref_text :: "string \<Rightarrow> string \<Rightarrow> string \<Rightarrow> string" where
  "ref_text ws1 name ws2 = ''{{'' @ ws1 @ name @ ws2 @ ''}}''"

definition is_name :: "string \<Rightarrow> bool" where
  "is_name name = (name \<noteq> [] \<and> list_all is_word_char name)"

section \<open>Coordinate mapper\<close>

text \<open>
  The fragment that every vision branch of \<open>execute_action\<close> repeats:
  \<open>abs_x, abs_y = rel_x, rel_y\<close>, then
  \<open>if ss_bounds and ss_bounds[2] != -1: abs_x = ss_bounds[0] + rel_x; abs_y = ss_bounds[1] + rel_y\<close>.
  Bounds are \<open>(left, top, width, height)\<close> or \<open>None\<close>.
\<close>

type_synonym bounds = "int \<times> int \<times> int \<times> int"

fun map_coords :: "bounds option \<Rightarrow> int \<Rightarrow> int \<Rightarrow> int \<times> int" where
  "map_coords None rel_x rel_y = (rel_x, rel_y)"
| "map_coords (Some (b_left, b_top, b_width, b_height)) rel_x rel_y =
     (if b_width \<noteq> - 1 then (b_left + rel_x, b_top + rel_y) else (rel_x, rel_y))"

text \<open>A context with a cycle: \<open>a\<close> refers to \<open>b\<close> and \<open>b\<close> to \<open>a\<close>.\<close>

definition cyclic_context :: pydict where
  "cyclic_context = [''a'' \<mapsto> PStr ''{{b}}'', ''b'' \<mapsto> PStr ''{{a}}'']"

section \<open>Plan runner: merging a step result into the execution context\<close>

text \<open>
  \<open>MainOrchestrator._execute_next_plan_step\<close>, lines 204 to 209:
  \<open>keys_to_clear = [k for k, v in result_data.items() if v is None and k in self.execution_context]\<close>;
  each such key is deleted from the context and from the result data; then
  \<open>self.execution_context.update(result_data)\<close>.
\<close>

definition in_keys_to_clear :: "pydict \<Rightarrow> pydict \<Rightarrow> string \<Rightarrow> bool" where
  "in_keys_to_clear result_data execution_context k =
     (result_data k = Some PNone \<and> execution_context k \<noteq> None)"

text \<open>The context and the result data after the merge.\<close>

definition merge_result_data :: "pydict \<Rightarrow> pydict \<Rightarrow> pydict \<times> pydict" where
  "merge_result_data execution_context result_data =
     (let context_cleared =
            (\<lambda>k. if in_keys_to_clear result_data execution_context k then None
                 else execution_context k);
          data_cleared =
            (\<lambda>k. if in_keys_to_clear result_data execution_context k then None
                 else result_data k)
      in (context_cleared ++ data_cleared, data_cleared))"

section \<open>Action dispatcher: collaborators and call trace\<close>

text \<open>
  Which collaborators the \<open>ActionAgent\<close> was constructed with (a missing one is
  \<open>None\<close>, which is falsy).
\<close>

record agent =
  has_os_interaction :: bool
  has_perception_agent :: bool
  has_credential_manager :: bool
  has_gemini_service :: bool
  has_accessibility_service :: bool

text \<open>
  An action step: the entries \<open>action_type\<close>, which may be missing, and \<open>parameters\<close>,
  where a missing entry reads as \<open>{}\<close>.
\<close>

record action_details =
  step_action_type :: "pyval option"
  step_parameters :: pydict

text \<open>
  What \<open>execute_action\<close> reads from the dictionary returned by
  \<open>get_element_coordinates_via_vision\<close>: the truth value of \<open>found\<close>, the centre, and
  \<open>reasoning\<close> when the key is there. \<open>PerceptionAgent\<close> returns \<open>found\<close> truthy only with
  all coordinate fields numeric, so \<open>x_center\<close> and \<open>y_center\<close> come as a pair;
  coordinates are integers, as the vision prompt requests them.
\<close>

record coords_info =
  ci_found :: bool
  ci_center :: "(int \<times> int) option"
  ci_reasoning :: "pyval option"

text \<open>
  The calls that \<open>execute_action\<close> makes on its collaborators, with their results, in
  the order made. \<open>'win\<close> is a window specification and \<open>'el\<close> an element of the
  accessibility backend.
\<close>

datatype ('win, 'el) call =
    GetWindow pyval "'win option"
  | FindElement 'win pyval pyval pyval pyval pyval "'el option"
  | ClickElement 'el bool
  | SetElementText 'el pyval bool
  | ActivateWindow pyval bool
  | VisionLocate pyval pyval pyval "coords_info option" "bounds option"
  | ClickAt int int bool
  | TypeText pyval pyval bool
  | GenerateText string "string option"
  | Sleep nat

text \<open>
  The collaborators themselves are not part of the agent: each is a function of the
  world \<open>'w\<close> that returns its result and the next world. \<open>vision_coordinates\<close> is the
  call \<open>self.perception_agent.get_element_coordinates_via_vision\<close> and \<open>sleep_ms\<close> is
  \<open>time.sleep\<close>, in milliseconds. \<open>other_handlers\<close> stands for the branches of \<open>execute_action\<close> that
  are not unfolded below (\<open>get_element_text_by_accessibility\<close>, \<open>wait\<close>,
  \<open>get_credentials_for_service\<close>, \<open>type_text_into_element_by_description\<close>, \<open>type_text\<close>,
  \<open>open_application\<close>, \<open>activate_window\<close>, \<open>close_application\<close>, \<open>search_web\<close>,
  \<open>press_key\<close>, \<open>clear_text_in_window\<close>, \<open>get_info_from_screen\<close>, \<open>log_message\<close>,
  \<open>send_message_whatsapp\<close>): given the action type, the parameters, the context and the
  effective target title it yields the branch's \<open>success\<close> and \<open>action_result_data\<close>, or
  raises.
\<close>

datatype 'a outcome = Returned 'a | Raised

type_synonym ('w, 'win, 'el) state = "'w \<times> ('win, 'el) call list"

type_synonym result = "bool \<times> pydict option"

record ('w, 'win, 'el) env =
  get_window :: "pyval \<Rightarrow> 'w \<Rightarrow> 'win option \<times> 'w"
  find_element :: "'win \<Rightarrow> pyval \<Rightarrow> pyval \<Rightarrow> pyval \<Rightarrow> pyval \<Rightarrow> pyval \<Rightarrow> 'w \<Rightarrow> 'el option \<times> 'w"
  click_element :: "'el \<Rightarrow> 'w \<Rightarrow> bool \<times> 'w"
  set_element_text :: "'el \<Rightarrow> pyval \<Rightarrow> 'w \<Rightarrow> bool \<times> 'w"
  activate_window :: "pyval \<Rightarrow> 'w \<Rightarrow> bool \<times> 'w"
  vision_coordinates ::
    "pyval \<Rightarrow> pyval \<Rightarrow> pyval \<Rightarrow> 'w \<Rightarrow> (coords_info option \<times> bounds option) \<times> 'w"
  click_at :: "int \<Rightarrow> int \<Rightarrow> 'w \<Rightarrow> bool \<times> 'w"
  type_text :: "pyval \<Rightarrow> pyval \<Rightarrow> 'w \<Rightarrow> bool \<times> 'w"
  generate_text_response :: "string \<Rightarrow> 'w \<Rightarrow> string option \<times> 'w"
  sleep_ms :: "nat \<Rightarrow> 'w \<Rightarrow> 'w"
  other_handlers ::
    "pyval \<Rightarrow> pydict \<Rightarrow> pydict \<Rightarrow> pyval \<Rightarrow> ('w, 'win, 'el) state \<Rightarrow>
       result outcome \<times> ('w, 'win, 'el) state"

text \<open>Each call runs the collaborator on the current world and appends itself to the trace.\<close>

definition call_get_window ::
  "('w, 'win, 'el) env \<Rightarrow> pyval \<Rightarrow> ('w, 'win, 'el) state \<Rightarrow> 'win option \<times> ('w, 'win, 'el) state" where
  "call_get_window e t s =
     (case get_window e t (fst s) of (r, w) \<Rightarrow> (r, (w, snd s @ [GetWindow t r])))"

definition call_find_element ::
  "('w, 'win, 'el) env \<Rightarrow> 'win \<Rightarrow> pyval \<Rightarrow> pyval \<Rightarrow> pyval \<Rightarrow> pyval \<Rightarrow> pyval \<Rightarrow>
     ('w, 'win, 'el) state \<Rightarrow> 'el option \<times> ('w, 'win, 'el) state" where
  "call_find_element e win nm ct aid fid cre s =
     (case find_element e win nm ct aid fid cre (fst s) of
        (r, w) \<Rightarrow> (r, (w, snd s @ [FindElement win nm ct aid fid cre r])))"

definition call_click_element ::
  "('w, 'win, 'el) env \<Rightarrow> 'el \<Rightarrow> ('w, 'win, 'el) state \<Rightarrow> bool \<times> ('w, 'win, 'el) state" where
  "call_click_element e el s =
     (case click_element e el (fst s) of (r, w) \<Rightarrow> (r, (w, snd s @ [ClickElement el r])))"

definition call_set_element_text ::
  "('w, 'win, 'el) env \<Rightarrow> 'el \<Rightarrow> pyval \<Rightarrow> ('w, 'win, 'el) state \<Rightarrow> bool \<times> ('w, 'win, 'el) state" where
  "call_set_element_text e el txt s =
     (case set_element_text e el txt (fst s) of
        (r, w) \<Rightarrow> (r, (w, snd s @ [SetElementText el txt r])))"

definition call_activate_window ::
  "('w, 'win, 'el) env \<Rightarrow> pyval \<Rightarrow> ('w, 'win, 'el) state \<Rightarrow> bool \<times> ('w, 'win, 'el) state" where
  "call_activate_window e t s =
     (case activate_window e t (fst s) of (r, w) \<Rightarrow> (r, (w, snd s @ [ActivateWindow t r])))"

definition call_vision ::
  "('w, 'win, 'el) env \<Rightarrow> pyval \<Rightarrow> pyval \<Rightarrow> pyval \<Rightarrow> ('w, 'win, 'el) state \<Rightarrow>
     (coords_info option \<times> bounds option) \<times> ('w, 'win, 'el) state" where
  "call_vision e d t ci s =
     (case vision_coordinates e d t ci (fst s) of
        ((c, b), w) \<Rightarrow> ((c, b), (w, snd s @ [VisionLocate d t ci c b])))"

definition call_click_at ::
  "('w, 'win, 'el) env \<Rightarrow> int \<Rightarrow> int \<Rightarrow> ('w, 'win, 'el) state \<Rightarrow> bool \<times> ('w, 'win, 'el) state" where
  "call_click_at e x y s =
     (case click_at e x y (fst s) of (r, w) \<Rightarrow> (r, (w, snd s @ [ClickAt x y r])))"

definition call_type_text ::
  "('w, 'win, 'el) env \<Rightarrow> pyval \<Rightarrow> pyval \<Rightarrow> ('w, 'win, 'el) state \<Rightarrow> bool \<times> ('w, 'win, 'el) state" where
  "call_type_text e txt t s =
     (case type_text e txt t (fst s) of (r, w) \<Rightarrow> (r, (w, snd s @ [TypeText txt t r])))"

definition call_generate_text ::
  "('w, 'win, 'el) env \<Rightarrow> string \<Rightarrow> ('w, 'win, 'el) state \<Rightarrow> string option \<times> ('w, 'win, 'el) state" where
  "call_generate_text e p s =
     (case generate_text_response e p (fst s) of
        (r, w) \<Rightarrow> (r, (w, snd s @ [GenerateText p r])))"

definition call_sleep ::
  "('w, 'win, 'el) env \<Rightarrow> nat \<Rightarrow> ('w, 'win, 'el) state \<Rightarrow> ('w, 'win, 'el) state" where
  "call_sleep e ms s = (sleep_ms e ms (fst s), snd s @ [Sleep ms])"


section \<open>Action dispatcher: helpers\<close>

text \<open>An f-string field between apostrophes.\<close>

definition quoted :: "string \<Rightarrow> string" where
  "quoted s = [CHR 0x27] @ s @ [CHR 0x27]"

text \<open>\<open>d.get(k, default)\<close>.\<close>

definition dget_default :: "pydict \<Rightarrow> string \<Rightarrow> pyval \<Rightarrow> pyval" where
  "dget_default d k dflt = (case d k of None \<Rightarrow> dflt | Some v \<Rightarrow> v)"

text \<open>
  \<open>action_result_data.get("error", "")\<close>, used as the left operand of a string
  concatenation; wherever the source evaluates it the key is absent or holds a string.
\<close>

definition get_error_text :: "pydict \<Rightarrow> string" where
  "get_error_text d = (case d ''error'' of Some (PStr e) \<Rightarrow> e | _ \<Rightarrow> [])"

text \<open>\<open>_get_effective_target_title\<close>.\<close>

definition get_effective_target_title :: "pydict \<Rightarrow> pydict \<Rightarrow> pyval" where
  "get_effective_target_title parameters current_context =
     (let target_title_param = dget parameters ''target_window_title''
      in if truthy target_title_param
         then resolve_context_variable target_title_param current_context
         else dget current_context ''last_opened_window_title'')"

text \<open>
  \<open>_get_loggable_text\<close> computes a text for the log only, so the model keeps whether the
  call returns. A truthy template that is not a string raises \<open>TypeError\<close> at
  \<open>"{{" in text_template\<close>, and a resolved text that is not a string raises it at
  \<open>len(resolved_text)\<close>.
\<close>

fun is_str :: "pyval \<Rightarrow> bool" where
  "is_str (PStr s) = True"
| "is_str v = False"

definition get_loggable_text_returns :: "pyval \<Rightarrow> pyval \<Rightarrow> bool" where
  "get_loggable_text_returns text_template resolved_text =
     ((truthy text_template \<longrightarrow> is_str text_template) \<and> is_str resolved_text)"

text \<open>
  The early returns of lines 116 to 130: the result when a required collaborator is
  missing, \<open>None\<close> when the checks pass.
\<close>

definition pre_action_checks :: "agent \<Rightarrow> pyval \<Rightarrow> result option" where
  "pre_action_checks ag a_type =
     (if \<not> has_os_interaction ag \<and>
         a_type \<notin> set (map PStr [''log_message'', ''get_info_from_screen'',
                        ''get_credentials_for_service'', ''wait'', ''generate_text_content''])
      then Some (False, Some [''error'' \<mapsto> PStr ''OSInteractionService unavailable''])
      else if \<not> has_perception_agent ag \<and>
         a_type \<in> set (map PStr [''click_element_by_description'',
                        ''type_text_into_element_by_description''])
      then Some (False, Some [''error'' \<mapsto>
             PStr (''PerceptionAgent (for vision) required for '' @ py_str a_type)])
      else if \<not> has_accessibility_service ag \<and>
         a_type \<in> set (map PStr [''click_element_by_accessibility'',
                        ''type_text_into_element_by_accessibility'',
                        ''get_element_text_by_accessibility''])
      then Some (False, Some [''error'' \<mapsto>
             PStr (''AccessibilityService required for '' @ py_str a_type)])
      else if \<not> has_gemini_service ag \<and> a_type = PStr ''generate_text_content''
      then Some (False, Some [''error'' \<mapsto>
             PStr ''GeminiService required for generate_text_content''])
      else None)"

text \<open>
  Lines 770 to 779. On failure a missing result dictionary becomes \<open>{}\<close> and a missing
  \<open>error\<close> key is filled with the default message.
\<close>

definition post_process :: "pyval \<Rightarrow> bool \<Rightarrow> pydict option \<Rightarrow> result" where
  "post_process a_type success action_result_data =
     (if success then (True, action_result_data)
      else (let d = (case action_result_data of None \<Rightarrow> Map.empty | Some d \<Rightarrow> d)
            in (False, Some (if d ''error'' = None
                             then d(''error'' \<mapsto> PStr (''Action '' @ quoted (py_str a_type) @ '' failed.''))
                             else d))))"

section \<open>Action dispatcher: handlers\<close>

text \<open>A branch that ends with \<open>action_result_data = {"error": msg}\<close> and no success.\<close>

definition fail_with :: "string \<Rightarrow> 's \<Rightarrow> result outcome \<times> 's" where
  "fail_with msg s = (Returned (False, Some [''error'' \<mapsto> PStr msg]), s)"

text \<open>
  A branch of a vision fallback that ends with
  \<open>action_result_data["error"] = (action_result_data.get("error", "") + msg).strip()\<close>.
\<close>

definition fail_adding :: "pydict \<Rightarrow> string \<Rightarrow> 's \<Rightarrow> result outcome \<times> 's" where
  "fail_adding d msg s =
     (Returned (False, Some (d(''error'' \<mapsto> PStr (py_strip (get_error_text d @ msg))))), s)"

text \<open>
  \<open>reason = coords_info.get("reasoning", "Not found") if coords_info else "Perception fail."\<close>
\<close>

definition not_found_reason :: "coords_info option \<Rightarrow> pyval" where
  "not_found_reason coords_info =
     (case coords_info of
        None \<Rightarrow> PStr ''Perception fail.''
      | Some c \<Rightarrow> (case ci_reasoning c of None \<Rightarrow> PStr ''Not found'' | Some r \<Rightarrow> r))"

text \<open>
  \<open>coords_info and coords_info.get("found") and coords_info.get("x_center") is not None\<close>:
  the centre when the test passes.
\<close>

definition located :: "coords_info option \<Rightarrow> (int \<times> int) option" where
  "located coords_info =
     (case coords_info of
        None \<Rightarrow> None
      | Some c \<Rightarrow> if ci_found c then ci_center c else None)"

text \<open>The text \<open>({abs_x},{abs_y})\<close>.\<close>

definition str_point :: "int \<Rightarrow> int \<Rightarrow> string" where
  "str_point x y = ''('' @ str_int x @ '','' @ str_int y @ '')''"

text \<open>
  \<open>effective_target_title and not self.os_interaction.activate_window(...)\<close> negated:
  the window is activated only for a truthy title.
\<close>

definition activate_if_titled ::
  "('w, 'win, 'el) env \<Rightarrow> pyval \<Rightarrow> ('w, 'win, 'el) state \<Rightarrow> bool \<times> ('w, 'win, 'el) state" where
  "activate_if_titled e effective_target_title s =
     (if truthy effective_target_title then call_activate_window e effective_target_title s
      else (True, s))"

text \<open>Lines 161 to 196: the vision fallback of the accessibility click.\<close>

definition click_vision_fallback ::
  "agent \<Rightarrow> ('w, 'win, 'el) env \<Rightarrow> pyval \<Rightarrow> pyval \<Rightarrow> pyval \<Rightarrow> pyval \<Rightarrow> pyval \<Rightarrow> pyval \<Rightarrow>
     ('w, 'win, 'el) state \<Rightarrow> result outcome \<times> ('w, 'win, 'el) state" where
  "click_vision_fallback ag e element_name automation_id control_type target_win_title
       element_description_for_vision effective_target_title s =
     (let action_result_data =
            [''warning_accessibility_failed'' \<mapsto>
               PStr (''Element '' @ quoted (py_str (py_or element_name automation_id)) @
                     '' (type: '' @ py_str control_type @
                     '') not found or click failed via accessibility in '' @
                     quoted (py_str target_win_title) @ ''.''),
             ''info'' \<mapsto> PStr ''Attempting vision-based fallback...'']
      in if \<not> has_perception_agent ag
         then fail_adding action_result_data '' PerceptionAgent unavailable for fallback.'' s
         else (case activate_if_titled e effective_target_title s of
                 (activated, s1) \<Rightarrow>
                   if \<not> activated
                   then fail_adding action_result_data
                          ('' Could not activate window '' @ quoted (py_str effective_target_title) @
                           '' for vision fallback.'') s1
                   else (case call_vision e element_description_for_vision effective_target_title
                                 (PStr []) s1 of
                           ((coords_info, ss_bounds), s2) \<Rightarrow>
                             (case located coords_info of
                                Some (rel_x, rel_y) \<Rightarrow>
                                  (case map_coords ss_bounds rel_x rel_y of
                                     (abs_x, abs_y) \<Rightarrow>
                                       (case call_click_at e abs_x abs_y s2 of
                                          (clicked, s3) \<Rightarrow>
                                            if clicked
                                            then (Returned (True, Some (action_result_data(''info'' \<mapsto>
                                                    PStr (''Clicked (fallback vision) '' @
                                                          quoted (py_str element_description_for_vision) @
                                                          '' at '' @ str_point abs_x abs_y @ ''.'')))), s3)
                                            else fail_adding action_result_data
                                                   ('' Vision fallback click failed at '' @
                                                    str_point abs_x abs_y @ ''.'') s3))
                              | None \<Rightarrow>
                                  fail_adding action_result_data
                                    ('' Vision fallback: Element '' @
                                     quoted (py_str element_description_for_vision) @ '' not found: '' @
                                     py_str (not_found_reason coords_info) @ ''.'') s2))))"

text \<open>Lines 133 to 198.\<close>

definition click_element_by_accessibility ::
  "agent \<Rightarrow> ('w, 'win, 'el) env \<Rightarrow> pydict \<Rightarrow> pydict \<Rightarrow> pyval \<Rightarrow>
     ('w, 'win, 'el) state \<Rightarrow> result outcome \<times> ('w, 'win, 'el) state" where
  "click_element_by_accessibility ag e parameters current_context effective_target_title s =
     (let target_win_title =
            py_or (resolve_context_variable (dget parameters ''target_window_title'') current_context)
                  effective_target_title;
          element_name = resolve_context_variable (dget parameters ''element_name'') current_context;
          control_type = dget parameters ''control_type'';
          automation_id = dget parameters ''automation_id'';
          framework_id = dget parameters ''framework_id'';
          class_name_re = dget parameters ''class_name_re'';
          element_description_for_vision =
            py_or (py_or element_name (dget parameters ''element_description''))
                  (PStr ''the described element'')
      in if \<not> truthy target_win_title \<or>
            \<not> truthy (py_or (py_or element_name automation_id) class_name_re)
         then fail_with
                ''Missing target_window_title or element identifier for click_element_by_accessibility.'' s
         else (case call_get_window e target_win_title s of
                 (None, s1) \<Rightarrow>
                   fail_with (''Window '' @ quoted (py_str target_win_title) @
                              '' not found for accessibility click.'') s1
               | (Some window_spec, s1) \<Rightarrow>
                   (case call_find_element e window_spec element_name control_type automation_id
                           framework_id class_name_re s1 of
                      (element, s2) \<Rightarrow>
                        (case (case element of
                                 None \<Rightarrow> (False, s2)
                               | Some el \<Rightarrow> call_click_element e el s2) of
                           (clicked, s3) \<Rightarrow>
                             if clicked
                             then (Returned (True, Some [''info'' \<mapsto>
                                     PStr (''Clicked element '' @
                                           quoted (py_str (py_or element_name automation_id)) @
                                           '' in '' @ quoted (py_str target_win_title) @
                                           '' via accessibility.'')]), s3)
                             else click_vision_fallback ag e element_name automation_id control_type
                                    target_win_title element_description_for_vision
                                    effective_target_title s3))))"

text \<open>Lines 285 to 382: the vision fallback of the accessibility typing.\<close>

definition type_vision_fallback ::
  "agent \<Rightarrow> ('w, 'win, 'el) env \<Rightarrow> pyval \<Rightarrow> pyval \<Rightarrow> pyval \<Rightarrow> pyval \<Rightarrow> pyval \<Rightarrow>
     ('w, 'win, 'el) state \<Rightarrow> result outcome \<times> ('w, 'win, 'el) state" where
  "type_vision_fallback ag e element_name automation_id text_to_type
       element_description_for_vision effective_target_title s =
     (let action_result_data =
            [''warning_accessibility_failed'' \<mapsto>
               PStr (''Failed to set text for element '' @
                     quoted (py_str (py_or element_name automation_id)) @ '' via accessibility.''),
             ''info'' \<mapsto> PStr ''Attempting vision-based type fallback...'']
      in if \<not> has_perception_agent ag
         then fail_adding action_result_data '' PerceptionAgent unavailable for fallback.'' s
         else (case activate_if_titled e effective_target_title s of
                 (activated, s1) \<Rightarrow>
                   if \<not> activated
                   then fail_adding action_result_data
                          ('' Could not activate window '' @ quoted (py_str effective_target_title) @
                           '' for vision fallback.'') s1
                   else (case call_vision e element_description_for_vision effective_target_title
                                 (PStr []) s1 of
                           ((coords_info, ss_bounds), s2) \<Rightarrow>
                             (case located coords_info of
                                Some (rel_x, rel_y) \<Rightarrow>
                                  (case map_coords ss_bounds rel_x rel_y of
                                     (abs_x, abs_y) \<Rightarrow>
                                       (case call_click_at e abs_x abs_y s2 of
                                          (clicked, s3) \<Rightarrow>
                                            if clicked
                                            then (case call_type_text e text_to_type PNone
                                                         (call_sleep e 300 s3) of
                                                    (typed, s4) \<Rightarrow>
                                                      if typed
                                                      then (Returned (True, Some (action_result_data(''info'' \<mapsto>
                                                              PStr (''Typed (fallback vision) into '' @
                                                                    quoted (py_str element_description_for_vision) @
                                                                    ''.'')))), s4)
                                                      else fail_adding action_result_data
                                                             ('' Vision fallback type failed after click '' @
                                                              quoted (py_str element_description_for_vision) @
                                                              ''.'') s4)
                                            else fail_adding action_result_data
                                                   ('' Vision fallback click failed for '' @
                                                    quoted (py_str element_description_for_vision) @
                                                    ''.'') s3))
                              | None \<Rightarrow>
                                  fail_adding action_result_data
                                    ('' Vision fallback: Element '' @
                                     quoted (py_str element_description_for_vision) @ '' not found: '' @
                                     py_str (not_found_reason coords_info) @ ''.'') s2))))"

text \<open>
  Lines 201 to 398. An element that the accessibility backend does not find ends the
  branch with an error; the vision fallback is entered only when \<open>set_element_text\<close>
  fails.
\<close>

definition type_text_into_element_by_accessibility ::
  "agent \<Rightarrow> ('w, 'win, 'el) env \<Rightarrow> pydict \<Rightarrow> pydict \<Rightarrow> pyval \<Rightarrow>
     ('w, 'win, 'el) state \<Rightarrow> result outcome \<times> ('w, 'win, 'el) state" where
  "type_text_into_element_by_accessibility ag e parameters current_context effective_target_title s =
     (let text_template = dget parameters ''text_to_type'';
          target_win_title =
            py_or (resolve_context_variable (dget parameters ''target_window_title'') current_context)
                  effective_target_title;
          element_name = resolve_context_variable (dget parameters ''element_name'') current_context;
          control_type = dget_default parameters ''control_type'' (PStr ''Edit'');
          automation_id = dget parameters ''automation_id'';
          framework_id = dget parameters ''framework_id'';
          class_name_re = dget parameters ''class_name_re'';
          element_description_for_vision =
            py_or (py_or element_name (dget parameters ''element_description''))
                  (PStr ''the described text field'')
      in if \<not> truthy text_template \<or> \<not> truthy target_win_title \<or>
            \<not> truthy (py_or (py_or element_name automation_id) class_name_re)
         then fail_with ''Missing parameters for type_text_into_element_by_accessibility.'' s
         else (let text_to_type = resolve_context_variable text_template current_context
               in if text_to_type = PNone
                  then fail_with (''Could not resolve text template: '' @
                                  quoted (py_str text_template)) s
                  else (case call_get_window e target_win_title s of
                          (None, s1) \<Rightarrow>
                            fail_with (''Window '' @ quoted (py_str target_win_title) @
                                       '' not found for accessibility typing.'') s1
                        | (Some window_spec, s1) \<Rightarrow>
                            (case call_find_element e window_spec element_name control_type
                                    automation_id framework_id class_name_re s1 of
                               (None, s2) \<Rightarrow>
                                 fail_with (''Element (name='' @ quoted (py_str element_name) @
                                            '', auto_id='' @ quoted (py_str automation_id) @
                                            '', class_re='' @ quoted (py_str class_name_re) @
                                            '') not found for typing in '' @
                                            quoted (py_str target_win_title) @ ''.'') s2
                             | (Some element, s2) \<Rightarrow>
                                 (case call_click_element e element s2 of
                                    (clicked, s3) \<Rightarrow>
                                      (let s4 = call_sleep e 200 s3
                                       in if \<not> get_loggable_text_returns text_template text_to_type
                                          then (Raised, s4)
                                          else (case call_set_element_text e element text_to_type s4 of
                                                  (typed, s5) \<Rightarrow>
                                                    if typed
                                                    then (Returned (True, Some [''info'' \<mapsto>
                                                            PStr (''Typed into element '' @
                                                                  quoted (py_str (py_or element_name automation_id)) @
                                                                  '' via accessibility.'')]), s5)
                                                    else type_vision_fallback ag e element_name
                                                           automation_id text_to_type
                                                           element_description_for_vision
                                                           effective_target_title s5)))))))"

text \<open>
  Lines 441 to 458. A truthy resolved prompt that is not a string raises \<open>TypeError\<close> at
  \<open>resolved_prompt_for_gen[:100]\<close>. When the result is stored under a key that is not
  a string, \<open>k.endswith("_password")\<close> in line 772 raises \<open>AttributeError\<close>.
\<close>

definition generate_text_content ::
  "agent \<Rightarrow> ('w, 'win, 'el) env \<Rightarrow> pydict \<Rightarrow> pydict \<Rightarrow>
     ('w, 'win, 'el) state \<Rightarrow> result outcome \<times> ('w, 'win, 'el) state" where
  "generate_text_content ag e parameters current_context s =
     (let prompt_for_gen_template = dget parameters ''prompt_for_generation'';
          store_as = dget_default parameters ''store_result_as'' (PStr ''generated_text_content'');
          resolved_prompt_for_gen = resolve_context_variable prompt_for_gen_template current_context
      in if \<not> truthy resolved_prompt_for_gen
         then fail_with ''Missing 'prompt_for_generation' or failed to resolve.'' s
         else if \<not> has_gemini_service ag
         then fail_with ''GeminiService unavailable for text generation.'' s
         else (case resolved_prompt_for_gen of
                 PStr prompt \<Rightarrow>
                   (case call_generate_text e prompt s of
                      (None, s1) \<Rightarrow> fail_with ''Failed text gen. Resp: None'' s1
                    | (Some generated_text, s1) \<Rightarrow>
                        if generated_text \<noteq> [] \<and> \<not> py_in ''error'' (py_lower generated_text)
                        then (case store_as of
                                PStr k \<Rightarrow>
                                  (Returned (True, Some [k \<mapsto> PStr generated_text,
                                     ''info'' \<mapsto> PStr ''Text content generated.'']), s1)
                              | _ \<Rightarrow> (Raised, s1))
                        else fail_with (''Failed text gen. Resp: '' @ generated_text) s1)
               | _ \<Rightarrow> (Raised, s)))"

text \<open>Lines 525 to 559.\<close>

definition click_element_by_description ::
  "agent \<Rightarrow> ('w, 'win, 'el) env \<Rightarrow> pydict \<Rightarrow> pyval \<Rightarrow>
     ('w, 'win, 'el) state \<Rightarrow> result outcome \<times> ('w, 'win, 'el) state" where
  "click_element_by_description ag e parameters effective_target_title s =
     (let element_desc = dget parameters ''element_description'';
          context_instr = dget_default parameters ''context_instructions_for_vision'' (PStr [])
      in if \<not> truthy element_desc then fail_with ''Missing 'element_description'.'' s
         else if \<not> has_perception_agent ag then fail_with ''PerceptionAgent unavailable.'' s
         else (case activate_if_titled e effective_target_title s of
                 (activated, s1) \<Rightarrow>
                   if \<not> activated
                   then fail_with (''Could not activate window '' @
                                   quoted (py_str effective_target_title) @ ''.'') s1
                   else (case call_vision e element_desc effective_target_title context_instr s1 of
                           ((coords_info, ss_bounds), s2) \<Rightarrow>
                             (case located coords_info of
                                Some (rel_x, rel_y) \<Rightarrow>
                                  (case map_coords ss_bounds rel_x rel_y of
                                     (abs_x, abs_y) \<Rightarrow>
                                       (case call_click_at e abs_x abs_y s2 of
                                          (clicked, s3) \<Rightarrow>
                                            if clicked
                                            then (Returned (True, Some [''info'' \<mapsto>
                                                    PStr (''Clicked (vision) '' @
                                                          quoted (py_str element_desc) @ '' at '' @
                                                          str_point abs_x abs_y @ ''.'')]), s3)
                                            else fail_with (''Failed vision click at '' @
                                                            str_point abs_x abs_y @ '' for '' @
                                                            quoted (py_str element_desc) @ ''.'') s3))
                              | None \<Rightarrow>
                                  fail_with (''Element (vision) '' @ quoted (py_str element_desc) @
                                             '' not found: '' @
                                             py_str (not_found_reason coords_info)) s2))))"

section \<open>Action dispatcher: \<open>execute_action\<close>\<close>

text \<open>The action types whose branches \<open>other_handlers\<close> stands for.\<close>

definition other_action_types :: "string list" where
  "other_action_types =
     [''get_element_text_by_accessibility'', ''wait'', ''get_credentials_for_service'',
      ''type_text_into_element_by_description'', ''type_text'', ''open_application'',
      ''activate_window'', ''close_application'', ''search_web'', ''press_key'',
      ''clear_text_in_window'', ''get_info_from_screen'', ''log_message'',
      ''send_message_whatsapp'']"

text \<open>The \<open>if\<close>/\<open>elif\<close> chain of lines 133 to 768.\<close>

definition action_handlers ::
  "agent \<Rightarrow> ('w, 'win, 'el) env \<Rightarrow> pyval \<Rightarrow> pydict \<Rightarrow> pydict \<Rightarrow> pyval \<Rightarrow>
     ('w, 'win, 'el) state \<Rightarrow> result outcome \<times> ('w, 'win, 'el) state" where
  "action_handlers ag e action_type parameters current_context effective_target_title s =
     (if action_type = PStr ''click_element_by_accessibility''
      then click_element_by_accessibility ag e parameters current_context effective_target_title s
      else if action_type = PStr ''type_text_into_element_by_accessibility''
      then type_text_into_element_by_accessibility ag e parameters current_context
             effective_target_title s
      else if action_type = PStr ''generate_text_content''
      then generate_text_content ag e parameters current_context s
      else if action_type = PStr ''click_element_by_description''
      then click_element_by_description ag e parameters effective_target_title s
      else if action_type = PStr ''navigate_url''
      then (Returned (False, Some [''info'' \<mapsto> PStr ''Web nav not implemented.'']), s)
      else if action_type \<in> set (map PStr other_action_types)
      then other_handlers e action_type parameters current_context effective_target_title s
      else fail_with (''Unknown or unimplemented action type: '' @ py_str action_type) s)"

text \<open>\<open>action_details.get("action_type")\<close>.\<close>

definition get_action_type :: "action_details \<Rightarrow> pyval" where
  "get_action_type action_details =
     (case step_action_type action_details of None \<Rightarrow> PNone | Some v \<Rightarrow> v)"

text \<open>
  \<open>ActionAgent.execute_action\<close>: the result (or \<open>Raised\<close>), the world afterwards and the
  calls made.
\<close>

definition execute_action ::
  "agent \<Rightarrow> ('w, 'win, 'el) env \<Rightarrow> action_details \<Rightarrow> pydict \<Rightarrow> 'w \<Rightarrow>
     result outcome \<times> 'w \<times> ('win, 'el) call list" where
  "execute_action ag e action_details current_context w =
     (let action_type = get_action_type action_details;
          parameters = step_parameters action_details;
          effective_target_title = get_effective_target_title parameters current_context
      in (case pre_action_checks ag action_type of
            Some early \<Rightarrow> (Returned early, w, [])
          | None \<Rightarrow>
              (case action_handlers ag e action_type parameters current_context
                      effective_target_title (w, []) of
                 (Raised, s) \<Rightarrow> (Raised, s)
               | (Returned (success, action_result_data), s) \<Rightarrow>
                   (Returned (post_process action_type success action_result_data), s))))"

section \<open>A scripted environment\<close>

text \<open>
  Collaborators with fixed answers, for running the dispatcher and the plan runner on
  concrete steps. The accessibility backend knows the window \<open>Calculator\<close> and finds no
  element in it; the vision backend locates every element at \<open>(40, 25)\<close> of a
  screenshot with bounds \<open>(100, 50, 800, 600)\<close>; clicks, activation and typing succeed;
  text generation answers \<open>Internal Error: quota exceeded\<close> to the prompt \<open>fail\<close> and
  \<open>Hello\<close> to any other.
\<close>

definition scripted_env :: "(unit, unit, unit) env" where
  "scripted_env =
     \<lparr> get_window = (\<lambda>t w. (if t = PStr ''Calculator'' then Some () else None, w)),
       find_element = (\<lambda>win nm ct aid fid cre w. (None, w)),
       click_element = (\<lambda>el w. (False, w)),
       set_element_text = (\<lambda>el txt w. (False, w)),
       activate_window = (\<lambda>t w. (True, w)),
       vision_coordinates = (\<lambda>d t ci w.
         ((Some \<lparr> ci_found = True, ci_center = Some (40, 25),
                    ci_reasoning = Some (PStr ''button'') \<rparr>,
           Some (100, 50, 800, 600)), w)),
       click_at = (\<lambda>x y w. (True, w)),
       type_text = (\<lambda>txt t w. (True, w)),
       generate_text_response = (\<lambda>p w.
         (Some (if p = ''fail'' then ''Internal Error: quota exceeded'' else ''Hello''), w)),
       sleep_ms = (\<lambda>ms w. w),
       other_handlers = (\<lambda>a_type parameters ctx title s. (Returned (False, None), s)) \<rparr>"

definition full_agent :: agent where
  "full_agent =
     \<lparr> has_os_interaction = True, has_perception_agent = True, has_credential_manager = True,
       has_gemini_service = True, has_accessibility_service = True \<rparr>"

section \<open>Plan runner\<close>

text \<open>
  The state of \<open>MainOrchestrator\<close> that plan execution reads and writes.
  \<open>exec_context\<close> is \<open>self.execution_context\<close>; \<open>status_signals\<close> collects the
  emissions of \<open>update_status_signal\<close> (message and level); \<open>timer_scheduled\<close> says that
  the single-shot \<open>step_execution_timer\<close> has been started and has not fired yet.
\<close>

record orchestrator =
  is_busy :: bool
  current_plan :: "action_details list"
  current_step_index :: nat
  exec_context :: pydict
  status_signals :: "(string \<times> string) list"
  timer_scheduled :: bool

definition emit :: "string \<Rightarrow> string \<Rightarrow> orchestrator \<Rightarrow> orchestrator" where
  "emit msg level orch = orch\<lparr> status_signals := status_signals orch @ [(msg, level)] \<rparr>"

text \<open>\<open>_finish_plan_execution\<close>, lines 222 to 229.\<close>

definition finish_plan_execution :: "bool \<Rightarrow> orchestrator \<Rightarrow> orchestrator" where
  "finish_plan_execution completed orch =
     (emit (if completed then ''Plan completed.'' else ''Plan finished (halted/failed).'')
           (if completed then ''success'' else ''warning'') orch)
       \<lparr> is_busy := False, current_plan := [], current_step_index := 0 \<rparr>"

text \<open>
  Lines 204 to 212, run before the success flag is looked at: the result data, when
  there is any, is merged into the context, and a truthy \<open>error\<close> entry is reported. An
  empty result dictionary skips the block, which is the same as merging it.
\<close>

definition merge_step_result :: "pydict option \<Rightarrow> orchestrator \<Rightarrow> orchestrator" where
  "merge_step_result result_data orch =
     (case result_data of
        None \<Rightarrow> orch
      | Some rd \<Rightarrow>
          (case merge_result_data (exec_context orch) rd of
             (merged_context, rd_cleared) \<Rightarrow>
               (let orch1 = orch\<lparr> exec_context := merged_context \<rparr>
                in if truthy (dget rd_cleared ''error'')
                   then emit (''Action Error: '' @ py_str (dget rd_cleared ''error'')) ''error'' orch1
                   else orch1)))"

text \<open>
  What that block does to the context and which signal it emits, as functions of the
  context before and of the result data.
\<close>

definition merge_into :: "pydict \<Rightarrow> pydict option \<Rightarrow> pydict" where
  "merge_into ctx result_data =
     (case result_data of None \<Rightarrow> ctx | Some rd \<Rightarrow> fst (merge_result_data ctx rd))"

definition action_error_signals :: "pydict \<Rightarrow> pydict option \<Rightarrow> (string \<times> string) list" where
  "action_error_signals ctx result_data =
     (case result_data of
        None \<Rightarrow> []
      | Some rd \<Rightarrow>
          (let rd_cleared = snd (merge_result_data ctx rd)
           in if truthy (dget rd_cleared ''error'')
              then [(''Action Error: '' @ py_str (dget rd_cleared ''error''), ''error'')]
              else []))"

text \<open>\<open>action_step.get('action_type', 'UnknownAction')\<close>.\<close>

definition get_action_type_log :: "action_details \<Rightarrow> pyval" where
  "get_action_type_log action_step =
     (case step_action_type action_step of None \<Rightarrow> PStr ''UnknownAction'' | Some v \<Rightarrow> v)"

text \<open>
  \<open>_execute_next_plan_step\<close>, lines 196 to 220. An exception raised by
  \<open>execute_action\<close> leaves the method.
\<close>

definition execute_next_plan_step ::
  "agent \<Rightarrow> ('w, 'win, 'el) env \<Rightarrow> orchestrator \<Rightarrow> 'w \<Rightarrow>
     orchestrator outcome \<times> 'w \<times> ('win, 'el) call list" where
  "execute_next_plan_step ag e orch w =
     (if current_step_index orch < length (current_plan orch)
      then (let action_step = current_plan orch ! current_step_index orch;
                action_type_log = get_action_type_log action_step;
                orch1 = emit (''Executing Step '' @ str_nat (current_step_index orch + 1) @ ''/'' @
                              str_nat (length (current_plan orch)) @ '': '' @ py_str action_type_log)
                             ''info'' orch
            in (case execute_action ag e action_step (exec_context orch1) w of
                  (Raised, w1, tr) \<Rightarrow> (Raised, w1, tr)
                | (Returned (success, result_data), w1, tr) \<Rightarrow>
                    (let orch2 = merge_step_result result_data orch1
                     in if success
                        then (Returned (orch2\<lparr> current_step_index := current_step_index orch2 + 1,
                                              timer_scheduled := True \<rparr>), w1, tr)
                        else (Returned (finish_plan_execution False
                                (emit (''Error at step '' @ str_nat (current_step_index orch2 + 1) @
                                       '' ('' @ quoted (py_str action_type_log) @ ''). Halting.'')
                                      ''error'' orch2)), w1, tr))))
      else (Returned (finish_plan_execution True orch), w, []))"

text \<open>
  The run of a plan: the first step is executed at once, and each firing of the timer
  clears it and executes the next step, until a step does not start the timer again.
  The traces of the steps are concatenated.
\<close>

function run_plan ::
  "agent \<Rightarrow> ('w, 'win, 'el) env \<Rightarrow> orchestrator \<Rightarrow> 'w \<Rightarrow>
     orchestrator outcome \<times> 'w \<times> ('win, 'el) call list" where
  "run_plan ag e orch w =
     (case execute_next_plan_step ag e (orch\<lparr> timer_scheduled := False \<rparr>) w of
        (Raised, w1, tr1) \<Rightarrow> (Raised, w1, tr1)
      | (Returned orch1, w1, tr1) \<Rightarrow>
          if timer_scheduled orch1
          then (case run_plan ag e orch1 w1 of (r, w2, tr2) \<Rightarrow> (r, w2, tr1 @ tr2))
          else (Returned orch1, w1, tr1))"
  by pat_completeness auto
termination
proof (relation "measure (\<lambda>(ag, e, orch, w). length (current_plan orch) - current_step_index orch)")
  show "wf (measure (\<lambda>(ag :: agent, e :: ('w, 'win, 'el) env, orch, w :: 'w).
              length (current_plan orch) - current_step_index orch))"
    by simp
next
  fix ag :: agent and e :: "('w, 'win, 'el) env" and orch :: orchestrator and w :: 'w
    and x :: "orchestrator outcome" and y :: "'w \<times> ('win, 'el) call list"
    and orch1 :: orchestrator and w1 :: 'w and tr1 :: "('win, 'el) call list"
  assume step: "(x, y) = execute_next_plan_step ag e (orch\<lparr> timer_scheduled := False \<rparr>) w"
    and x: "x = Returned orch1" and y: "(w1, tr1) = y" and timer: "timer_scheduled orch1"
  from step x y have s: "execute_next_plan_step ag e (orch\<lparr> timer_scheduled := False \<rparr>) w =
      (Returned orch1, w1, tr1)"
    by simp
  have merge_keeps: "\<And>d o'. current_plan (merge_step_result d o') = current_plan o' \<and>
      current_step_index (merge_step_result d o') = current_step_index o' \<and>
      timer_scheduled (merge_step_result d o') = timer_scheduled o'"
    by (simp add: merge_step_result_def emit_def Let_def split: option.splits prod.splits)
  from s timer have "current_step_index orch < length (current_plan orch) \<and>
      current_plan orch1 = current_plan orch \<and>
      current_step_index orch1 = current_step_index orch + 1"
    by (auto simp: execute_next_plan_step_def Let_def merge_keeps emit_def
          finish_plan_execution_def
        split: if_splits prod.splits outcome.splits)
  then show "((ag, e, orch1, w1), (ag, e, orch, w))
      \<in> measure (\<lambda>(ag, e, orch, w). length (current_plan orch) - current_step_index orch)"
    by auto
qed

declare run_plan.simps [simp del]

text \<open>
  The orchestrator when it starts a validated plan (\<open>handle_user_command\<close>, lines 130 to
  168): busy, at step 0.
\<close>

definition start_plan :: "action_details list \<Rightarrow> pydict \<Rightarrow> orchestrator" where
  "start_plan plan ctx =
     \<lparr> is_busy = True, current_plan = plan, current_step_index = 0, exec_context = ctx,
       status_signals = [], timer_scheduled = False \<rparr>"

text \<open>
  A plan of three steps for the scripted environment: generate a text, navigate to a
  URL (a step that always fails), generate a text again.
\<close>

definition three_step_plan :: "action_details list" where
  "three_step_plan =
     [\<lparr> step_action_type = Some (PStr ''generate_text_content''),
        step_parameters = [''prompt_for_generation'' \<mapsto> PStr ''hi''] \<rparr>,
      \<lparr> step_action_type = Some (PStr ''navigate_url''), step_parameters = Map.empty \<rparr>,
      \<lparr> step_action_type = Some (PStr ''generate_text_content''),
        step_parameters = [''prompt_for_generation'' \<mapsto> PStr ''hi''] \<rparr>]"

section \<open>Properties of the coordinate mapper\<close>



section \<open>Properties of the context resolver\<close>

lemma no_ref_fixed: "\<not> has_ref s \<Longrightarrow> re_sub ctx s = s"
proof (induction ctx s rule: re_sub.induct)
  case (1 ctx)
  show ?case by simp
next
  case (2 ctx c cs)
  from "2.prems" have m: "match_ref (c # cs) = None" and h: "\<not> has_ref cs"
    by (cases "match_ref (c # cs)"; simp)+
  from "2.IH"(1) [OF m h] m show ?case by simp
qed

lemma passes_bound: "snd (resolve_passes n ctx s) \<le> n"
proof (induction n arbitrary: s)
  case 0
  show ?case by simp
next
  case (Suc n)
  from Suc [of "re_sub ctx s"] show ?case
    by (cases "resolve_passes n ctx (re_sub ctx s)") (simp add: Let_def)
qed

lemma passes_funpow: "resolve_passes n ctx s = (r, k) \<Longrightarrow> r = (re_sub ctx ^^ k) s"
  apply (induction n arbitrary: s r k) 
   apply (auto simp: Let_def funpow_swap1 split: prod.splits if_splits)
  done

lemma brace_not_space: "\<not> is_space_char CHR ''{''" "\<not> is_word_char CHR ''{''" "\<not> is_space_char CHR ''}''" "\<not> is_word_char CHR ''}''"
  by (simp_all add: is_space_char_def is_word_char_def)

lemma word_not_space: "is_word_char c \<Longrightarrow> \<not> is_space_char c"
  by (auto simp: is_space_char_def is_word_char_def Let_def)

lemma dropWhile_brace:
  "\<not> P CHR ''{'' \<Longrightarrow> dropWhile P (xs @ CHR ''{'' # t) = dropWhile P xs @ CHR ''{'' # t"
  by (induction xs) auto

lemma takeWhile_brace:
  "\<not> P CHR ''{'' \<Longrightarrow> takeWhile P (xs @ CHR ''{'' # t) = takeWhile P xs"
  by (induction xs) auto

lemma match_ref_append:
  assumes "s \<noteq> []"
  shows "match_ref (s @ CHR ''{'' # CHR ''{'' # t) =
         map_option (\<lambda>(n, rest). (n, rest @ CHR ''{'' # CHR ''{'' # t)) (match_ref s)"
proof (cases s)
  case Nil
  with assms show ?thesis by simp
next
  case (Cons c1 s1)
  show ?thesis
  proof (cases s1)
    case Nil
    with Cons show ?thesis
      by (simp add: match_ref_def brace_not_space)
  next
    case (Cons c2 s2)
    define r4 where
      "r4 = dropWhile is_space_char (dropWhile is_word_char (dropWhile is_space_char s2))"
    have r4: "dropWhile is_space_char (dropWhile is_word_char (dropWhile is_space_char
                (s2 @ CHR ''{'' # CHR ''{'' # t))) = r4 @ CHR ''{'' # CHR ''{'' # t"
      by (simp add: dropWhile_brace brace_not_space r4_def)
    have nm: "takeWhile is_word_char (dropWhile is_space_char (s2 @ CHR ''{'' # CHR ''{'' # t))
              = takeWhile is_word_char (dropWhile is_space_char s2)"
      by (simp add: dropWhile_brace takeWhile_brace brace_not_space)
    show ?thesis
      unfolding \<open>s = c1 # s1\<close> Cons
      by (cases r4; cases "tl r4")
         (auto simp: match_ref_def Let_def r4 nm r4_def [symmetric])
  qed
qed

lemma space_run_brace:
  assumes "list_all is_space_char ws"
  shows "takeWhile is_word_char (ws @ CHR ''}'' # r) = []"
    and "dropWhile is_word_char (ws @ CHR ''}'' # r) = ws @ CHR ''}'' # r"
    and "dropWhile is_space_char (ws @ CHR ''}'' # r) = CHR ''}'' # r"
  using assms by (cases ws; auto simp: brace_not_space word_not_space list_all_iff dropWhile_append)+

lemma match_ref_ref:
  assumes "is_name name" "list_all is_space_char ws1" "list_all is_space_char ws2"
  shows "match_ref (ref_text ws1 name ws2 @ post) = Some (name, post)"
proof -
  from assms(1) obtain n ns where name: "name = n # ns" and n: "is_word_char n"
    and ns: "\<forall>x\<in>set ns. is_word_char x"
    by (cases name) (auto simp: is_name_def list_all_iff)
  let ?tail = "ws2 @ CHR ''}'' # CHR ''}'' # post"
  have r2: "dropWhile is_space_char (ws1 @ name @ ?tail) = name @ ?tail"
    using assms(2) n by (simp add: dropWhile_append list_all_iff name word_not_space)
  have tk: "takeWhile is_word_char (name @ ?tail) = name"
    using n ns space_run_brace(1) [OF assms(3)] by (simp add: name takeWhile_append)
  have dr: "dropWhile is_word_char (name @ ?tail) = ?tail"
    using n ns space_run_brace(2) [OF assms(3)] by (simp add: name dropWhile_append)
  have d4: "dropWhile is_space_char ?tail = CHR ''}'' # CHR ''}'' # post"
    using space_run_brace(3) [OF assms(3)] by simp
  have "ref_text ws1 name ws2 @ post = CHR ''{'' # CHR ''{'' # (ws1 @ name @ ?tail)"
    by (simp add: ref_text_def)
  then show ?thesis
    by (simp add: match_ref_def Let_def r2 tk dr d4) (simp add: name)
qed

lemma re_sub_around:
  assumes "is_name name" "list_all is_space_char ws1" "list_all is_space_char ws2"
  shows "re_sub ctx (pre @ ref_text ws1 name ws2 @ post) =
         re_sub ctx pre @ replace_match ctx name @ re_sub ctx post"
proof (induction ctx pre rule: re_sub.induct)
  case (1 ctx)
  have "ref_text ws1 name ws2 @ post = CHR ''{'' # tl (ref_text ws1 name ws2 @ post)"
    by (simp add: ref_text_def)
  then have "re_sub ctx (ref_text ws1 name ws2 @ post) =
      (case match_ref (ref_text ws1 name ws2 @ post) of
         Some (name, rest) \<Rightarrow> replace_match ctx name @ re_sub ctx rest
       | None \<Rightarrow> CHR ''{'' # re_sub ctx (tl (ref_text ws1 name ws2 @ post)))"
    by (metis re_sub.simps(2))
  then show ?case
    by (simp add: match_ref_ref [OF assms])
next
  case (2 ctx c cs)
  obtain t where R: "ref_text ws1 name ws2 @ post = CHR ''{'' # CHR ''{'' # t"
    by (simp add: ref_text_def)
  have m: "match_ref ((c # cs) @ ref_text ws1 name ws2 @ post) =
           map_option (\<lambda>(n, rest). (n, rest @ ref_text ws1 name ws2 @ post)) (match_ref (c # cs))"
    unfolding R by (rule match_ref_append) simp
  show ?case
  proof (cases "match_ref (c # cs)")
    case None
    with m "2.IH"(1) [OF None] show ?thesis by simp
  next
    case (Some a)
    obtain n rest where a: "a = (n, rest)" by (cases a)
    from "2.IH"(2) [OF Some a [symmetric]] m Some a show ?thesis by simp
  qed
qed

lemma replace_absent: "ctx name = None \<Longrightarrow> replace_match ctx name = ref_text [] name []"
  by (simp add: replace_match_def ref_text_def)

lemma funpow_around:
  assumes "is_name name" "ctx name = None"
  shows "(re_sub ctx ^^ k) (pre @ ref_text [] name [] @ post) =
         (re_sub ctx ^^ k) pre @ ref_text [] name [] @ (re_sub ctx ^^ k) post"
proof (induction k arbitrary: pre post)
  case 0
  show ?case by simp
next
  case (Suc k)
  have step: "\<And>p q. re_sub ctx (p @ ref_text [] name [] @ q) =
        re_sub ctx p @ ref_text [] name [] @ re_sub ctx q"
    using re_sub_around [OF assms(1), of "[]" "[]" ctx] replace_absent [of ctx name] assms(2)
    by simp
  show ?case
    by (simp add: Suc.IH step)
qed

lemma passes_pos: "0 < n \<Longrightarrow> 0 < snd (resolve_passes n ctx s)"
  by (cases n) (auto simp: Let_def split: prod.splits)

lemma early_stop:
  "(re_sub ctx ^^ Suc j) s = (re_sub ctx ^^ j) s \<Longrightarrow> j < n \<Longrightarrow> snd (resolve_passes n ctx s) \<le> Suc j"
proof (induction n arbitrary: s j)
  case 0
  then show ?case by simp
next
  case (Suc n)
  show ?case
  proof (cases "re_sub ctx s = s")
    case True
    then show ?thesis by simp
  next
    case False
    with Suc.prems(1) obtain j' where j: "j = Suc j'"
      by (cases j) auto
    from Suc.prems(1) have "(re_sub ctx ^^ Suc j') (re_sub ctx s) = (re_sub ctx ^^ j') (re_sub ctx s)"
      unfolding j by (simp add: funpow_swap1)
    from Suc.IH [OF this] Suc.prems(2) j have "snd (resolve_passes n ctx (re_sub ctx s)) \<le> Suc j'"
      by simp
    with False j show ?thesis
      by (cases "resolve_passes n ctx (re_sub ctx s)") (simp add: Let_def)
  qed
qed

lemma stopped_fixed: "resolve_passes n ctx s = (r, k) \<Longrightarrow> k < n \<Longrightarrow> re_sub ctx r = r"
proof (induction n arbitrary: s r k)
  case 0
  then show ?case by simp
next
  case (Suc n)
  show ?case
  proof (cases "re_sub ctx s = s")
    case True
    with Suc.prems show ?thesis by simp
  next
    case False
    obtain r' k' where rk: "resolve_passes n ctx (re_sub ctx s) = (r', k')"
      by (cases "resolve_passes n ctx (re_sub ctx s)")
    with False Suc.prems have "r = r'" "k = Suc k'" by (simp_all add: Let_def)
    with Suc.IH [OF rk] Suc.prems(2) show ?thesis by simp
  qed
qed

lemma stopped_last:
  "resolve_passes n ctx s = (r, k) \<Longrightarrow> k < n \<Longrightarrow> (re_sub ctx ^^ k) s = (re_sub ctx ^^ (k - 1)) s"
proof (induction n arbitrary: s r k)
  case 0
  then show ?case by simp
next
  case (Suc n)
  show ?case
  proof (cases "re_sub ctx s = s")
    case True
    with Suc.prems show ?thesis by auto
  next
    case False
    obtain r' k' where rk: "resolve_passes n ctx (re_sub ctx s) = (r', k')"
      by (cases "resolve_passes n ctx (re_sub ctx s)")
    with False Suc.prems have k: "k = Suc k'" and lt: "k' < n" by (simp_all add: Let_def)
    from lt have "0 < n" by simp
    from passes_pos [OF this, of ctx "re_sub ctx s"] rk have "0 < k'" by simp
    then obtain k'' where k'': "k' = Suc k''" by (cases k') auto
    from Suc.IH [OF rk lt] show ?thesis
      by (simp add: k k'' funpow_swap1)
  qed
qed

lemma re_sub_one_ref:
  "is_name n \<Longrightarrow> re_sub ctx (''{{'' @ n @ ''}}'') = replace_match ctx n"
  using re_sub_around [of n "[]" "[]" ctx "[]" "[]"] by (simp add: ref_text_def)

text \<open>
  Claim C6, as the code has it. A reference to a name that the context does not define is
  rewritten to its canonical text \<open>{{name}}\<close>: the braces and the name stay, whitespace
  between the braces and the name is dropped. The reference is never erased and never
  replaced by a value, whatever surrounds it; the text before and the text after it are
  resolved on their own, by the same number of passes (between 1 and 5). A reference
  written without inner whitespace is therefore left exactly as it was.
\<close>

theorem resolve_keeps_undefined_reference:
  assumes "is_name name" "list_all is_space_char ws1" "list_all is_space_char ws2"
    and "ctx name = None"
  shows "\<exists>k. 1 \<le> k \<and> k \<le> 5 \<and>
           resolve_context_variable (PStr (pre @ ref_text ws1 name ws2 @ post)) ctx =
           PStr ((re_sub ctx ^^ k) pre @ ''{{'' @ name @ ''}}'' @ (re_sub ctx ^^ k) post)"
proof -
  let ?t = "pre @ ref_text ws1 name ws2 @ post"
  obtain r k where rk: "resolve_passes 5 ctx ?t = (r, k)"
    by (cases "resolve_passes 5 ctx ?t")
  have k5: "k \<le> 5" using passes_bound [of 5 ctx "?t"] rk by simp
  have k0: "0 < k" using passes_pos [of 5 ctx "?t"] rk by simp
  then obtain k' where k: "k = Suc k'" by (cases k) auto
  have "r = (re_sub ctx ^^ k') (re_sub ctx ?t)"
    using passes_funpow [OF rk] by (simp add: k funpow_swap1)
  also have "re_sub ctx ?t =
      re_sub ctx pre @ ref_text [] name [] @ re_sub ctx post"
    using re_sub_around [OF assms(1-3), of ctx pre post]
      replace_absent [of ctx name] assms(4) by simp
  also have "(re_sub ctx ^^ k') \<dots> =
      (re_sub ctx ^^ k) pre @ ref_text [] name [] @ (re_sub ctx ^^ k) post"
    using funpow_around [where name = name and ctx = ctx and k = k'
        and pre = "re_sub ctx pre" and post = "re_sub ctx post"] assms(1,4)
    by (simp add: k funpow_swap1)
  finally have "r = (re_sub ctx ^^ k) pre @ ''{{'' @ name @ ''}}'' @ (re_sub ctx ^^ k) post"
    by (simp add: ref_text_def)
  with rk k0 k5 show ?thesis
    by (intro exI [of _ k]) simp
qed

theorem resolve_keeps_undefined_reference_witness:
  "is_name ''b'' \<and> list_all is_space_char '' '' \<and> list_all is_space_char [] \<and>
   [''a'' \<mapsto> PStr ''x''] ''b'' = None \<and>
   (\<exists>k. 1 \<le> k \<and> k \<le> 5 \<and>
      resolve_context_variable (PStr (''{{a}} '' @ ref_text '' '' ''b'' [] @ ''!''))
        [''a'' \<mapsto> PStr ''x''] =
      PStr ((re_sub [''a'' \<mapsto> PStr ''x''] ^^ k) ''{{a}} '' @ ''{{'' @ ''b'' @ ''}}'' @
            (re_sub [''a'' \<mapsto> PStr ''x''] ^^ k) ''!''))"
proof -
  have h1: "is_name ''b''"
    by (simp add: is_name_def is_word_char_def)
  have h2: "list_all is_space_char '' ''"
    by (simp add: is_space_char_def)
  have h3: "list_all is_space_char []"
    by simp
  have h4: "[''a'' \<mapsto> PStr ''x''] ''b'' = None"
    by simp
  from resolve_keeps_undefined_reference [where name = "''b''" and ?ws1.0 = "'' ''"
      and ?ws2.0 = "[]" and ctx = "[''a'' \<mapsto> PStr ''x'']"
      and pre = "''{{a}} ''" and post = "''!''", OF h1 h2 h3 h4] h1 h2 h3 h4
  show ?thesis by blast
qed

text \<open>
  The claim as stated, that the reference text is left unchanged, fails for a reference
  written with whitespace inside the braces: with an empty context \<open>{{ a }}\<close> resolves to
  \<open>{{a}}\<close>.
\<close>

theorem resolve_rewrites_spaced_reference:
  "(Map.empty :: pydict) ''a'' = None \<and>
   resolve_context_variable (PStr ''{{ a }}'') Map.empty = PStr ''{{a}}'' \<and>
   resolve_context_variable (PStr ''{{ a }}'') Map.empty \<noteq> PStr ''{{ a }}''"
  by (simp add: numeral_eq_Suc match_ref_def replace_match_def is_space_char_def
      is_word_char_def Let_def)

text \<open>
  Claim C7. For every template and context, a cyclic context included, the resolver
  makes at least one and at most 5 substitution passes. It stops as soon as a pass
  produces no change: if pass \<open>j + 1\<close> changes nothing, no more than \<open>j + 1\<close> passes are
  made; and when it stops before the fifth pass, its last pass changed nothing, so the
  text returned is a fixed point of the substitution. It always returns a string, namely
  the template after that many passes. Once a pass leaves no double-brace match,
  substituting again yields the same string.
\<close>

theorem resolve_terminates_within_five_passes:
  "1 \<le> snd (resolve_passes 5 ctx t) \<and>
   snd (resolve_passes 5 ctx t) \<le> 5 \<and>
   (\<forall>j<5. (re_sub ctx ^^ Suc j) t = (re_sub ctx ^^ j) t \<longrightarrow>
      snd (resolve_passes 5 ctx t) \<le> Suc j) \<and>
   (snd (resolve_passes 5 ctx t) < 5 \<longrightarrow>
      (re_sub ctx ^^ snd (resolve_passes 5 ctx t)) t =
        (re_sub ctx ^^ (snd (resolve_passes 5 ctx t) - 1)) t \<and>
      re_sub ctx (fst (resolve_passes 5 ctx t)) = fst (resolve_passes 5 ctx t)) \<and>
   resolve_context_variable (PStr t) ctx = PStr (fst (resolve_passes 5 ctx t)) \<and>
   resolve_context_variable (PStr t) ctx =
     PStr ((re_sub ctx ^^ snd (resolve_passes 5 ctx t)) t) \<and>
   (\<not> has_ref (re_sub ctx t) \<longrightarrow> re_sub ctx (re_sub ctx t) = re_sub ctx t)"
proof -
  obtain r k where rk: "resolve_passes 5 ctx t = (r, k)"
    by (cases "resolve_passes 5 ctx t")
  have pos: "1 \<le> snd (resolve_passes 5 ctx t)"
    using passes_pos [of 5 ctx t] by simp
  have bound: "snd (resolve_passes 5 ctx t) \<le> 5"
    by (rule passes_bound)
  have early: "\<forall>j<5. (re_sub ctx ^^ Suc j) t = (re_sub ctx ^^ j) t \<longrightarrow>
      snd (resolve_passes 5 ctx t) \<le> Suc j"
    using early_stop [where ctx = ctx and s = t and n = 5] by blast
  have stop: "snd (resolve_passes 5 ctx t) < 5 \<longrightarrow>
      (re_sub ctx ^^ snd (resolve_passes 5 ctx t)) t =
        (re_sub ctx ^^ (snd (resolve_passes 5 ctx t) - 1)) t \<and>
      re_sub ctx (fst (resolve_passes 5 ctx t)) = fst (resolve_passes 5 ctx t)"
    using stopped_last [OF rk] stopped_fixed [OF rk] rk by simp
  have res1: "resolve_context_variable (PStr t) ctx = PStr (fst (resolve_passes 5 ctx t))"
    by simp
  have res2: "resolve_context_variable (PStr t) ctx =
     PStr ((re_sub ctx ^^ snd (resolve_passes 5 ctx t)) t)"
    using passes_funpow [OF rk] rk by simp
  have idem: "\<not> has_ref (re_sub ctx t) \<longrightarrow> re_sub ctx (re_sub ctx t) = re_sub ctx t"
    using no_ref_fixed by blast
  from pos bound early stop res1 res2 idem show ?thesis
    by (intro conjI)
qed

theorem resolve_terminates_within_five_passes_witness:
  "resolve_context_variable (PStr ''{{a}}'') cyclic_context = PStr ''{{b}}'' \<and>
   snd (resolve_passes 5 cyclic_context ''{{a}}'') = 5 \<and>
   (1 :: nat) < 5 \<and>
   (re_sub [''a'' \<mapsto> PStr ''x''] ^^ Suc 1) ''{{a}}'' =
     (re_sub [''a'' \<mapsto> PStr ''x''] ^^ 1) ''{{a}}'' \<and>
   snd (resolve_passes 5 [''a'' \<mapsto> PStr ''x''] ''{{a}}'') = 2 \<and>
   snd (resolve_passes 5 [''a'' \<mapsto> PStr ''x''] ''{{a}}'') < 5 \<and>
   fst (resolve_passes 5 [''a'' \<mapsto> PStr ''x''] ''{{a}}'') = ''x'' \<and>
   re_sub [''a'' \<mapsto> PStr ''x''] ''x'' = ''x'' \<and>
   \<not> has_ref (re_sub [''a'' \<mapsto> PStr ''x''] ''{{a}}'') \<and>
   re_sub [''a'' \<mapsto> PStr ''x''] (re_sub [''a'' \<mapsto> PStr ''x''] ''{{a}}'') =
     re_sub [''a'' \<mapsto> PStr ''x''] ''{{a}}''"
proof -
  let ?X = "[''a'' \<mapsto> PStr ''x'']"
  have na: "is_name ''a''" and nb: "is_name ''b''"
    by (simp_all add: is_name_def is_word_char_def)
  have a: "re_sub cyclic_context ''{{a}}'' = ''{{b}}''"
    using re_sub_one_ref [OF na, of cyclic_context]
    by (simp add: replace_match_def cyclic_context_def)
  have b: "re_sub cyclic_context ''{{b}}'' = ''{{a}}''"
    using re_sub_one_ref [OF nb, of cyclic_context]
    by (simp add: replace_match_def cyclic_context_def)
  have cyc: "resolve_passes 5 cyclic_context ''{{a}}'' = (''{{b}}'', 5)"
    by (simp add: numeral_eq_Suc a b del: re_sub.simps)
  have x: "re_sub ?X ''{{a}}'' = ''x''"
    using re_sub_one_ref [OF na, of ?X]
    by (simp add: replace_match_def)
  have xx: "re_sub ?X ''x'' = ''x''"
    by (simp add: match_ref_def)
  have nr: "\<not> has_ref ''x''"
    by (simp add: match_ref_def)
  have conv: "resolve_passes 5 ?X ''{{a}}'' = (''x'', 2)"
    by (simp add: numeral_eq_Suc x xx del: re_sub.simps)
  note T = resolve_terminates_within_five_passes [of ?X "''{{a}}''"]
  note T3 = T [THEN conjunct2, THEN conjunct2, THEN conjunct1, rule_format]
  note T4 = T [THEN conjunct2, THEN conjunct2, THEN conjunct2, THEN conjunct1, rule_format]
  note T7 = T [THEN conjunct2, THEN conjunct2, THEN conjunct2, THEN conjunct2, THEN conjunct2,
      THEN conjunct2, rule_format]
  have c1: "resolve_context_variable (PStr ''{{a}}'') cyclic_context = PStr ''{{b}}''"
    by (simp add: cyc del: re_sub.simps)
  have c2: "snd (resolve_passes 5 cyclic_context ''{{a}}'') = 5"
    by (simp add: cyc del: re_sub.simps)
  have one: "(1 :: nat) < 5"
    by simp
  have h2: "(re_sub ?X ^^ Suc 1) ''{{a}}'' = (re_sub ?X ^^ 1) ''{{a}}''"
    by (simp add: x xx del: re_sub.simps)
  have le: "snd (resolve_passes 5 ?X ''{{a}}'') \<le> Suc 1"
    by (rule T3 [OF one h2])
  have c3: "snd (resolve_passes 5 ?X ''{{a}}'') = 2"
    by (simp add: conv del: re_sub.simps)
  have lt: "snd (resolve_passes 5 ?X ''{{a}}'') < 5"
    unfolding c3 by simp
  have f: "fst (resolve_passes 5 ?X ''{{a}}'') = ''x''"
    by (simp add: conv del: re_sub.simps)
  have c5: "re_sub ?X ''x'' = ''x''"
    using T4 [OF lt, THEN conjunct2] unfolding f .
  have h3: "\<not> has_ref (re_sub ?X ''{{a}}'')"
    unfolding x by (rule nr)
  have c4: "re_sub ?X (re_sub ?X ''{{a}}'') = re_sub ?X ''{{a}}''"
    by (rule T7 [OF h3])
  show ?thesis
    by (rule conjI [OF c1 conjI [OF c2 conjI [OF one conjI [OF h2 conjI [OF c3 conjI [OF lt
          conjI [OF f conjI [OF c5 conjI [OF h3 c4]]]]]]]]])
qed

section \<open>Properties of the context merge\<close>

text \<open>
  Claim C3, as the code has it. For a step result whose data maps a key to null: if the
  key was in the execution context before the merge, it is absent from the context
  afterwards (deleted, not kept with value null); if it was not, the guard
  \<open>k in self.execution_context\<close> keeps it out of \<open>keys_to_clear\<close> and the update stores
  it in the context with value null.
\<close>

theorem merge_clears_present_null_key:
  assumes "result_data k = Some PNone"
  shows "(execution_context k \<noteq> None \<longrightarrow>
            fst (merge_result_data execution_context result_data) k = None) \<and>
         (execution_context k = None \<longrightarrow>
            fst (merge_result_data execution_context result_data) k = Some PNone)"
  using assms by (simp add: merge_result_data_def in_keys_to_clear_def map_add_def)

theorem merge_clears_present_null_key_witness:
  "[''foo'' \<mapsto> PNone] ''foo'' = Some PNone \<and>
   [''foo'' \<mapsto> PStr ''bar''] ''foo'' \<noteq> None \<and>
   fst (merge_result_data [''foo'' \<mapsto> PStr ''bar''] [''foo'' \<mapsto> PNone]) ''foo'' = None"
  using merge_clears_present_null_key [of "[''foo'' \<mapsto> PNone]" "''foo''"
      "[''foo'' \<mapsto> PStr ''bar'']"]
  by simp

text \<open>
  The claim as stated, that a key mapped to null is never in the context after the merge,
  fails when the key was not there before. After a command that set
  \<open>last_opened_app_name\<close> and removed \<open>last_opened_window_title\<close>, the result data of a
  successful \<open>close_application\<close> step maps both keys to null: the first is deleted, the
  second enters the context with value null.
\<close>

theorem merge_adds_absent_null_key:
  "fst (merge_result_data [''last_opened_app_name'' \<mapsto> PStr ''notepad'']
          [''last_opened_window_title'' \<mapsto> PNone, ''last_opened_app_name'' \<mapsto> PNone])
     ''last_opened_window_title'' = Some PNone \<and>
   fst (merge_result_data [''last_opened_app_name'' \<mapsto> PStr ''notepad'']
          [''last_opened_window_title'' \<mapsto> PNone, ''last_opened_app_name'' \<mapsto> PNone])
     ''last_opened_app_name'' = None"
  by (simp add: merge_result_data_def in_keys_to_clear_def map_add_def)

section \<open>Properties of the action dispatcher\<close>

lemma post_process_error:
  assumes "post_process a_type success h = (False, data)"
  shows "\<exists>d. data = Some d \<and> d ''error'' \<noteq> None"
  using assms by (auto simp: post_process_def Let_def split: if_splits option.splits)

lemma execute_action_cases:
  assumes "execute_action ag e a ctx w = (Returned (success, data), w', tr)"
  shows "pre_action_checks ag (get_action_type a) = Some (success, data) \<or>
         (\<exists>ok h. pre_action_checks ag (get_action_type a) = None \<and>
            action_handlers ag e (get_action_type a) (step_parameters a) ctx
              (get_effective_target_title (step_parameters a) ctx) (w, []) =
              (Returned (ok, h), w', tr) \<and>
            post_process (get_action_type a) ok h = (success, data))"
  using assms
  by (auto simp: execute_action_def Let_def split: option.splits prod.splits outcome.splits)

lemma pre_action_checks_error:
  assumes "pre_action_checks ag a_type = Some (success, data)"
  shows "\<not> success \<and> (\<exists>d. data = Some d \<and> d ''error'' \<noteq> None)"
proof -
  define P1 where "P1 = (\<not> has_os_interaction ag \<and>
         a_type \<notin> set (map PStr [''log_message'', ''get_info_from_screen'',
                        ''get_credentials_for_service'', ''wait'', ''generate_text_content'']))"
  define P2 where "P2 = (\<not> has_perception_agent ag \<and>
         a_type \<in> set (map PStr [''click_element_by_description'',
                        ''type_text_into_element_by_description'']))"
  define P3 where "P3 = (\<not> has_accessibility_service ag \<and>
         a_type \<in> set (map PStr [''click_element_by_accessibility'',
                        ''type_text_into_element_by_accessibility'',
                        ''get_element_text_by_accessibility'']))"
  define P4 where "P4 = (\<not> has_gemini_service ag \<and> a_type = PStr ''generate_text_content'')"
  from assms have "(if P1 then Some (False, Some [''error'' \<mapsto> PStr ''OSInteractionService unavailable''])
      else if P2 then Some (False, Some [''error'' \<mapsto>
             PStr (''PerceptionAgent (for vision) required for '' @ py_str a_type)])
      else if P3 then Some (False, Some [''error'' \<mapsto>
             PStr (''AccessibilityService required for '' @ py_str a_type)])
      else if P4 then Some (False, Some [''error'' \<mapsto>
             PStr ''GeminiService required for generate_text_content''])
      else None) = Some (success, data)"
    unfolding pre_action_checks_def P1_def P2_def P3_def P4_def .
  then show ?thesis
    by (cases P1; cases P2; cases P3; cases P4) auto
qed

text \<open>
  Claim C5. For every action step and context, whenever \<open>execute_action\<close> returns with
  \<open>success\<close> false, the returned result data is a dictionary, not \<open>None\<close>, and has the
  key \<open>error\<close>. When the handling branch ran and ended without success and without that
  key (with a dictionary \<open>h\<close> lacking it, or with no dictionary at all), the
  post-processing adds the default message \<open>Action '<action_type>' failed.\<close> and leaves
  every other entry as the branch set it; an error that the branch did set is returned
  unchanged.
\<close>

theorem failed_action_reports_error:
  "(execute_action ag e a ctx w = (Returned (False, data), w', tr) \<longrightarrow>
      (\<exists>d. data = Some d \<and> d ''error'' \<noteq> None)) \<and>
   (pre_action_checks ag (get_action_type a) = None \<and>
    action_handlers ag e (get_action_type a) (step_parameters a) ctx
      (get_effective_target_title (step_parameters a) ctx) (w, []) = (Returned (False, h), s) \<longrightarrow>
      execute_action ag e a ctx w =
        (Returned (False,
           Some (case h of
                   None \<Rightarrow> [''error'' \<mapsto>
                     PStr (''Action '' @ quoted (py_str (get_action_type a)) @ '' failed.'')]
                 | Some d \<Rightarrow>
                     if d ''error'' = None
                     then d(''error'' \<mapsto>
                       PStr (''Action '' @ quoted (py_str (get_action_type a)) @ '' failed.''))
                     else d)), s))"
proof (intro conjI impI)
  assume r: "execute_action ag e a ctx w = (Returned (False, data), w', tr)"
  from execute_action_cases [OF r] show "\<exists>d. data = Some d \<and> d ''error'' \<noteq> None"
    using pre_action_checks_error post_process_error by blast
next
  assume "pre_action_checks ag (get_action_type a) = None \<and>
    action_handlers ag e (get_action_type a) (step_parameters a) ctx
      (get_effective_target_title (step_parameters a) ctx) (w, []) = (Returned (False, h), s)"
  then show "execute_action ag e a ctx w =
        (Returned (False,
           Some (case h of
                   None \<Rightarrow> [''error'' \<mapsto>
                     PStr (''Action '' @ quoted (py_str (get_action_type a)) @ '' failed.'')]
                 | Some d \<Rightarrow>
                     if d ''error'' = None
                     then d(''error'' \<mapsto>
                       PStr (''Action '' @ quoted (py_str (get_action_type a)) @ '' failed.''))
                     else d)), s)"
    by (cases h) (simp_all add: execute_action_def Let_def post_process_def)
qed

lemma navigate_url_step:
  "get_action_type \<lparr> step_action_type = Some (PStr ''navigate_url''), step_parameters = Map.empty \<rparr>
     = PStr ''navigate_url''"
  "pre_action_checks full_agent (PStr ''navigate_url'') = None"
  "action_handlers full_agent scripted_env (PStr ''navigate_url'') ps ctx t s =
     (Returned (False, Some [''info'' \<mapsto> PStr ''Web nav not implemented.'']), s)"
  by (simp_all add: get_action_type_def pre_action_checks_def full_agent_def action_handlers_def)

theorem failed_action_reports_error_witness:
  "execute_action full_agent scripted_env
     \<lparr> step_action_type = Some (PStr ''navigate_url''), step_parameters = Map.empty \<rparr>
     Map.empty () =
   (Returned (False, Some [''info'' \<mapsto> PStr ''Web nav not implemented.'',
      ''error'' \<mapsto> PStr ''Action 'navigate_url' failed.'']), (), []) \<and>
   (\<exists>d. Some [''info'' \<mapsto> PStr ''Web nav not implemented.'',
            ''error'' \<mapsto> PStr ''Action 'navigate_url' failed.''] = Some d \<and>
        d ''error'' \<noteq> None)"
proof -
  let ?a = "\<lparr> step_action_type = Some (PStr ''navigate_url''), step_parameters = Map.empty \<rparr>"
  let ?h = "Some [''info'' \<mapsto> PStr ''Web nav not implemented.'']"
  note T = failed_action_reports_error [of full_agent scripted_env ?a Map.empty "()" _ _ _ ?h "((), [])"]
  have run: "execute_action full_agent scripted_env ?a Map.empty () =
     (Returned (False, Some [''info'' \<mapsto> PStr ''Web nav not implemented.'',
        ''error'' \<mapsto> PStr ''Action 'navigate_url' failed.'']), (), [])"
    using T [THEN conjunct2] by (simp add: navigate_url_step quoted_def)
  from T [THEN conjunct1, rule_format, OF run] run show ?thesis
    by (rule_tac conjI)
qed


lemma execute_action_run:
  assumes "execute_action ag e a ctx w = (out, w', tr)"
  shows "(\<exists>early. pre_action_checks ag (get_action_type a) = Some early \<and>
            out = Returned early \<and> w' = w \<and> tr = []) \<or>
         (\<exists>r. pre_action_checks ag (get_action_type a) = None \<and>
            action_handlers ag e (get_action_type a) (step_parameters a) ctx
              (get_effective_target_title (step_parameters a) ctx) (w, []) = (r, w', tr) \<and>
            out = (case r of
                     Raised \<Rightarrow> Raised
                   | Returned (ok, h) \<Rightarrow> Returned (post_process (get_action_type a) ok h)))"
  using assms
  by (auto simp: execute_action_def Let_def split: option.splits prod.splits outcome.splits)







lemma resolve_plain:
  "\<not> has_ref s \<Longrightarrow> resolve_context_variable (PStr s) ctx = PStr s"
  by (simp add: numeral_eq_Suc no_ref_fixed del: re_sub.simps)








lemma generate_text_content_run:
  assumes "generate_text_content ag e parameters ctx (w, []) = (r, w', tr)"
  shows "(tr = [] \<and> (\<forall>data. r \<noteq> Returned (True, data))) \<or>
         (\<exists>p. tr = [GenerateText p None] \<and>
              r = Returned (False, Some [''error'' \<mapsto> PStr ''Failed text gen. Resp: None''])) \<or>
         (\<exists>p txt. tr = [GenerateText p (Some txt)] \<and>
              (if txt \<noteq> [] \<and> \<not> py_in ''error'' (py_lower txt)
               then r = Raised \<or>
                    (\<exists>k. dget_default parameters ''store_result_as'' (PStr ''generated_text_content'') =
                           PStr k \<and>
                         r = Returned (True, Some [k \<mapsto> PStr txt,
                               ''info'' \<mapsto> PStr ''Text content generated.'']))
               else r = Returned (False, Some [''error'' \<mapsto>
                          PStr (''Failed text gen. Resp: '' @ txt)])))"
  using assms
  by (auto simp: generate_text_content_def Let_def fail_with_def call_generate_text_def
      split: if_splits prod.splits option.splits pyval.splits)

lemma py_in_middle: "py_in n (u @ n @ v)"
proof (induction u)
  case Nil
  show ?case
  proof (cases "n @ v")
    case Nil
    then show ?thesis by simp
  next
    case (Cons c cs)
    have "prefix n (n @ v)" by simp
    then have "prefix n (c # cs)" unfolding Cons .
    then have "py_in n (c # cs)" by simp
    then show ?thesis unfolding Cons by simp
  qed
next
  case (Cons c u)
  then show ?case by simp
qed

lemma lower_error_letters:
  "lower_char CHR ''e'' = CHR ''e''" "lower_char CHR ''E'' = CHR ''e''"
  "lower_char CHR ''r'' = CHR ''r''" "lower_char CHR ''R'' = CHR ''r''"
  "lower_char CHR ''o'' = CHR ''o''" "lower_char CHR ''O'' = CHR ''o''"
  by code_simp+

lemma mixed_case_error:
  assumes "c1 \<in> {CHR ''e'', CHR ''E''}" "c2 \<in> {CHR ''r'', CHR ''R''}"
    "c3 \<in> {CHR ''r'', CHR ''R''}" "c4 \<in> {CHR ''o'', CHR ''O''}" "c5 \<in> {CHR ''r'', CHR ''R''}"
  shows "py_in ''error'' (py_lower (u @ [c1, c2, c3, c4, c5] @ v))"
proof -
  from assms have "py_lower [c1, c2, c3, c4, c5] = ''error''"
    by (auto simp: py_lower_def lower_error_letters)
  then have "py_lower (u @ [c1, c2, c3, c4, c5] @ v) = py_lower u @ ''error'' @ py_lower v"
    by (simp add: py_lower_def)
  then show ?thesis
    using py_in_middle [of "''error''" "py_lower u" "py_lower v"] by simp
qed

text \<open>
  Claim C10. For every \<open>generate_text_content\<close> step: when the generation backend
  returned a text that contains \<open>error\<close> in any letter case, \<open>execute_action\<close> returns
  failure with the error \<open>Failed text gen. Resp: <text>\<close>, however long or well-formed
  the text is. This is stated twice: for a text whose lower-cased form contains \<open>error\<close>,
  as the code tests it, and for a text with the five letters in upper or lower case at
  any position. And when \<open>execute_action\<close> returns success, the backend was called
  exactly once and returned a non-empty text whose lower-cased form does not contain
  \<open>error\<close>, which is stored under the key named by \<open>store_result_as\<close>.
\<close>

theorem generated_text_with_error_fails:
  assumes "get_action_type a = PStr ''generate_text_content''"
    and "execute_action ag e a ctx w = (out, w', tr)"
  shows "(\<forall>p txt. GenerateText p (Some txt) \<in> set tr \<and> py_in ''error'' (py_lower txt) \<longrightarrow>
            out = Returned (False, Some [''error'' \<mapsto> PStr (''Failed text gen. Resp: '' @ txt)])) \<and>
         (\<forall>p u v c1 c2 c3 c4 c5.
            GenerateText p (Some (u @ [c1, c2, c3, c4, c5] @ v)) \<in> set tr \<and>
            c1 \<in> {CHR ''e'', CHR ''E''} \<and> c2 \<in> {CHR ''r'', CHR ''R''} \<and>
            c3 \<in> {CHR ''r'', CHR ''R''} \<and> c4 \<in> {CHR ''o'', CHR ''O''} \<and>
            c5 \<in> {CHR ''r'', CHR ''R''} \<longrightarrow>
            out = Returned (False, Some [''error'' \<mapsto>
                    PStr (''Failed text gen. Resp: '' @ u @ [c1, c2, c3, c4, c5] @ v)])) \<and>
         (\<forall>data. out = Returned (True, data) \<longrightarrow>
            (\<exists>p txt k. tr = [GenerateText p (Some txt)] \<and> txt \<noteq> [] \<and>
               \<not> py_in ''error'' (py_lower txt) \<and>
               dget_default (step_parameters a) ''store_result_as'' (PStr ''generated_text_content'') =
                 PStr k \<and>
               data = Some [k \<mapsto> PStr txt, ''info'' \<mapsto> PStr ''Text content generated.'']))"
proof -
  let ?ps = "step_parameters a" and ?eff = "get_effective_target_title (step_parameters a) ctx"
  have main: "(\<forall>p txt. GenerateText p (Some txt) \<in> set tr \<and> py_in ''error'' (py_lower txt) \<longrightarrow>
            out = Returned (False, Some [''error'' \<mapsto> PStr (''Failed text gen. Resp: '' @ txt)])) \<and>
         (\<forall>data. out = Returned (True, data) \<longrightarrow>
            (\<exists>p txt k. tr = [GenerateText p (Some txt)] \<and> txt \<noteq> [] \<and>
               \<not> py_in ''error'' (py_lower txt) \<and>
               dget_default (step_parameters a) ''store_result_as'' (PStr ''generated_text_content'') =
                 PStr k \<and>
               data = Some [k \<mapsto> PStr txt, ''info'' \<mapsto> PStr ''Text content generated.'']))"
    using execute_action_run [OF assms(2)]
  proof
    assume "\<exists>early. pre_action_checks ag (get_action_type a) = Some early \<and>
            out = Returned early \<and> w' = w \<and> tr = []"
    then obtain early where pre: "pre_action_checks ag (get_action_type a) = Some early"
      and out: "out = Returned early" and tr: "tr = []"
      by auto
    from pre_action_checks_error [of ag "get_action_type a" "fst early" "snd early"] pre
    have "\<not> fst early" by simp
    with out tr show ?thesis by auto
  next
    assume "\<exists>r. pre_action_checks ag (get_action_type a) = None \<and>
            action_handlers ag e (get_action_type a) ?ps ctx ?eff (w, []) = (r, w', tr) \<and>
            out = (case r of
                     Raised \<Rightarrow> Raised
                   | Returned (ok, h) \<Rightarrow> Returned (post_process (get_action_type a) ok h))"
    then obtain r where h: "action_handlers ag e (get_action_type a) ?ps ctx ?eff (w, []) = (r, w', tr)"
      and out: "out = (case r of
                     Raised \<Rightarrow> Raised
                   | Returned (ok, h) \<Rightarrow> Returned (post_process (get_action_type a) ok h))"
      by auto
    from h assms(1) have "generate_text_content ag e ?ps ctx (w, []) = (r, w', tr)"
      by (simp add: action_handlers_def)
    from generate_text_content_run [OF this] out show ?thesis
      by (auto simp: post_process_def Let_def split: if_splits outcome.splits prod.splits)
  qed
  then show ?thesis
    using mixed_case_error by blast
qed

lemma resolved_prompts:
  "resolve_context_variable (PStr ''fail'') ctx = PStr ''fail''"
  "resolve_context_variable (PStr ''hi'') ctx = PStr ''hi''"
  by (rule resolve_plain, simp add: match_ref_def)+

lemma error_in_texts:
  "py_in ''error'' (py_lower ''Internal Error: quota exceeded'')"
  "\<not> py_in ''error'' (py_lower ''Hello'')"
  by code_simp+

theorem generated_text_with_error_fails_witness:
  "execute_action full_agent scripted_env
     \<lparr> step_action_type = Some (PStr ''generate_text_content''),
       step_parameters = [''prompt_for_generation'' \<mapsto> PStr ''fail''] \<rparr> Map.empty () =
     (Returned (False, Some [''error'' \<mapsto>
        PStr ''Failed text gen. Resp: Internal Error: quota exceeded'']), (),
      [GenerateText ''fail'' (Some ''Internal Error: quota exceeded'')]) \<and>
   py_in ''error'' (py_lower ''Internal Error: quota exceeded'') \<and>
   execute_action full_agent scripted_env
     \<lparr> step_action_type = Some (PStr ''generate_text_content''),
       step_parameters = [''prompt_for_generation'' \<mapsto> PStr ''hi''] \<rparr> Map.empty () =
     (Returned (True, Some [''generated_text_content'' \<mapsto> PStr ''Hello'',
        ''info'' \<mapsto> PStr ''Text content generated.'']), (),
      [GenerateText ''hi'' (Some ''Hello'')]) \<and>
   \<not> py_in ''error'' (py_lower ''Hello'')"
proof -
  let ?a1 = "\<lparr> step_action_type = Some (PStr ''generate_text_content''),
       step_parameters = [''prompt_for_generation'' \<mapsto> PStr ''fail''] \<rparr>"
  let ?a2 = "\<lparr> step_action_type = Some (PStr ''generate_text_content''),
       step_parameters = [''prompt_for_generation'' \<mapsto> PStr ''hi''] \<rparr>"
  let ?tr1 = "[GenerateText ''fail'' (Some ''Internal Error: quota exceeded'')] :: (unit, unit) call list"
  have ty: "get_action_type ?a1 = PStr ''generate_text_content''"
    "get_action_type ?a2 = PStr ''generate_text_content''"
    by (simp_all add: get_action_type_def)
  obtain out1 where run1: "execute_action full_agent scripted_env ?a1 Map.empty () = (out1, (), ?tr1)"
    by (simp add: execute_action_def get_action_type_def pre_action_checks_def full_agent_def
        action_handlers_def generate_text_content_def get_effective_target_title_def dget_def
        dget_default_def call_generate_text_def scripted_env_def fail_with_def post_process_def
        Let_def resolved_prompts error_in_texts del: resolve_context_variable.simps(2))
  have out1: "out1 = Returned (False, Some [''error'' \<mapsto>
        PStr ''Failed text gen. Resp: Internal Error: quota exceeded''])"
    using generated_text_with_error_fails [OF ty(1) run1, THEN conjunct1, rule_format,
        of "''fail''" "''Internal Error: quota exceeded''"] error_in_texts(1)
    by simp
  have run2: "execute_action full_agent scripted_env ?a2 Map.empty () =
     (Returned (True, Some [''generated_text_content'' \<mapsto> PStr ''Hello'',
        ''info'' \<mapsto> PStr ''Text content generated.'']), (),
      [GenerateText ''hi'' (Some ''Hello'')])"
    by (simp add: execute_action_def get_action_type_def pre_action_checks_def full_agent_def
        action_handlers_def generate_text_content_def get_effective_target_title_def dget_def
        dget_default_def call_generate_text_def scripted_env_def fail_with_def post_process_def
        Let_def resolved_prompts error_in_texts del: resolve_context_variable.simps(2))
  have out1': "out1 = Returned (False, Some [''error'' \<mapsto>
        PStr (''Failed text gen. Resp: '' @ ''Internal '' @ ''Error'' @ '': quota exceeded'')])"
    using generated_text_with_error_fails [OF ty(1) run1, THEN conjunct2, THEN conjunct1,
        rule_format, of "''fail''" "''Internal ''" "CHR ''E''" "CHR ''r''" "CHR ''r''" "CHR ''o''"
        "CHR ''r''" "'': quota exceeded''"]
    by simp
  have clean: "\<not> py_in ''error'' (py_lower ''Hello'')"
    using generated_text_with_error_fails [OF ty(2) run2, THEN conjunct2, THEN conjunct2,
        rule_format, OF refl]
    by simp
  from run1 out1 out1' error_in_texts(1) run2 clean show ?thesis
    by simp
qed

section \<open>Properties of the plan runner\<close>

lemma merge_step_result_fields:
  "exec_context (merge_step_result d orch) = merge_into (exec_context orch) d"
  "status_signals (merge_step_result d orch) =
     status_signals orch @ action_error_signals (exec_context orch) d"
  "current_plan (merge_step_result d orch) = current_plan orch"
  "current_step_index (merge_step_result d orch) = current_step_index orch"
  "is_busy (merge_step_result d orch) = is_busy orch"
  "timer_scheduled (merge_step_result d orch) = timer_scheduled orch"
  by (simp_all add: merge_step_result_def merge_into_def action_error_signals_def emit_def Let_def
      split: option.splits prod.splits)

lemma step_succeeds:
  assumes "current_step_index orch < length (current_plan orch)"
    and "execute_action ag e (current_plan orch ! current_step_index orch) (exec_context orch) w =
           (Returned (True, d), w1, tr)"
  shows "\<exists>orch1. execute_next_plan_step ag e orch w = (Returned orch1, w1, tr) \<and>
           timer_scheduled orch1 \<and> is_busy orch1 = is_busy orch \<and>
           current_plan orch1 = current_plan orch \<and>
           current_step_index orch1 = current_step_index orch + 1 \<and>
           exec_context orch1 = merge_into (exec_context orch) d \<and>
           status_signals orch1 = status_signals orch @
             [(''Executing Step '' @ str_nat (current_step_index orch + 1) @ ''/'' @
               str_nat (length (current_plan orch)) @ '': '' @
               py_str (get_action_type_log (current_plan orch ! current_step_index orch)), ''info'')] @
             action_error_signals (exec_context orch) d"
  using assms
  by (simp add: execute_next_plan_step_def Let_def merge_step_result_fields emit_def)

lemma step_fails:
  assumes "current_step_index orch < length (current_plan orch)"
    and "execute_action ag e (current_plan orch ! current_step_index orch) (exec_context orch) w =
           (Returned (False, d), w1, tr)"
  shows "\<exists>orch1. execute_next_plan_step ag e orch w = (Returned orch1, w1, tr) \<and>
           timer_scheduled orch1 = timer_scheduled orch \<and> \<not> is_busy orch1 \<and>
           current_plan orch1 = [] \<and> current_step_index orch1 = 0 \<and>
           exec_context orch1 = merge_into (exec_context orch) d \<and>
           status_signals orch1 = status_signals orch @
             [(''Executing Step '' @ str_nat (current_step_index orch + 1) @ ''/'' @
               str_nat (length (current_plan orch)) @ '': '' @
               py_str (get_action_type_log (current_plan orch ! current_step_index orch)), ''info'')] @
             action_error_signals (exec_context orch) d @
             [(''Error at step '' @ str_nat (current_step_index orch + 1) @ '' ('' @
               quoted (py_str (get_action_type_log (current_plan orch ! current_step_index orch))) @
               ''). Halting.'', ''error''),
              (''Plan finished (halted/failed).'', ''warning'')]"
  using assms
  by (simp add: execute_next_plan_step_def Let_def merge_step_result_fields emit_def
      finish_plan_execution_def)

lemma str_nat_small:
  "str_nat 1 = ''1''" "str_nat 2 = ''2''" "str_nat 3 = ''3''"
  "str_nat (Suc 0) = ''1''" "str_nat (Suc (Suc 0)) = ''2''" "str_nat (Suc (Suc (Suc 0))) = ''3''"
  by code_simp+

text \<open>
  Claim C2, as the code has it. For every plan of three steps whose first step succeeds
  and whose second step returns without success from \<open>execute_action\<close>: the run ends
  after the second step (the calls made are those of steps 1 and 2, and only these two
  steps are announced); the failure is reported for step 2 and the plan is finished as
  halted, which clears the plan, resets the cursor to 0 and ends the busy state; and
  the execution context is the context after step 1 with the result data of the failing
  step 2 merged into it in the same way, so that a non-null \<open>error\<close> of step 2 is in the
  context.
\<close>

theorem failing_second_step_halts_plan:
  assumes "current_plan orch = [s1, s2, s3]" and "current_step_index orch = 0"
    and "execute_action ag e s1 (exec_context orch) w = (Returned (True, d1), w1, tr1)"
    and "execute_action ag e s2 (merge_into (exec_context orch) d1) w1 =
           (Returned (False, d2), w2, tr2)"
  shows "\<exists>final. run_plan ag e orch w = (Returned final, w2, tr1 @ tr2) \<and>
           \<not> is_busy final \<and> current_plan final = [] \<and> current_step_index final = 0 \<and>
           \<not> timer_scheduled final \<and>
           exec_context final =
             merge_into (merge_into (exec_context orch) d1) d2 \<and>
           status_signals final = status_signals orch @
             [(''Executing Step 1/3: '' @ py_str (get_action_type_log s1), ''info'')] @
             action_error_signals (exec_context orch) d1 @
             [(''Executing Step 2/3: '' @ py_str (get_action_type_log s2), ''info'')] @
             action_error_signals (merge_into (exec_context orch) d1) d2 @
             [(''Error at step 2 ('' @ quoted (py_str (get_action_type_log s2)) @ ''). Halting.'',
               ''error''),
              (''Plan finished (halted/failed).'', ''warning'')] \<and>
           (\<forall>m v. d2 = Some m \<and> m ''error'' = Some v \<and> v \<noteq> PNone \<longrightarrow>
              exec_context final ''error'' = Some v)"
proof -
  let ?o0 = "orch\<lparr> timer_scheduled := False \<rparr>"
  have i0: "current_step_index ?o0 < length (current_plan ?o0)"
    using assms(1,2) by simp
  have e0: "execute_action ag e (current_plan ?o0 ! current_step_index ?o0)
              (exec_context ?o0) w = (Returned (True, d1), w1, tr1)"
    using assms(1,2,3) by simp
  from step_succeeds [OF i0 e0] obtain orch1 where
    s1: "execute_next_plan_step ag e ?o0 w = (Returned orch1, w1, tr1)"
    and t1: "timer_scheduled orch1" and p1: "current_plan orch1 = [s1, s2, s3]"
    and c1: "current_step_index orch1 = 1"
    and x1: "exec_context orch1 = merge_into (exec_context orch) d1"
    and g1: "status_signals orch1 = status_signals orch @
             [(''Executing Step 1/3: '' @ py_str (get_action_type_log s1), ''info'')] @
             action_error_signals (exec_context orch) d1"
    using assms(1,2) by (auto simp: str_nat_small)
  let ?o1 = "orch1\<lparr> timer_scheduled := False \<rparr>"
  have i1: "current_step_index ?o1 < length (current_plan ?o1)"
    using p1 c1 by simp
  have e1: "execute_action ag e (current_plan ?o1 ! current_step_index ?o1)
              (exec_context ?o1) w1 = (Returned (False, d2), w2, tr2)"
    using p1 c1 x1 assms(4) by simp
  from step_fails [OF i1 e1] obtain final where
    s2: "execute_next_plan_step ag e ?o1 w1 = (Returned final, w2, tr2)"
    and t2: "\<not> timer_scheduled final" and b2: "\<not> is_busy final"
    and p2: "current_plan final = []" and c2: "current_step_index final = 0"
    and x2: "exec_context final = merge_into (merge_into (exec_context orch) d1) d2"
    and g2: "status_signals final = status_signals orch1 @
             [(''Executing Step 2/3: '' @ py_str (get_action_type_log s2), ''info'')] @
             action_error_signals (merge_into (exec_context orch) d1) d2 @
             [(''Error at step 2 ('' @ quoted (py_str (get_action_type_log s2)) @ ''). Halting.'',
               ''error''),
              (''Plan finished (halted/failed).'', ''warning'')]"
    using p1 c1 x1 by (auto simp: str_nat_small)
  have r1: "run_plan ag e orch1 w1 = (Returned final, w2, tr2)"
    by (subst run_plan.simps) (simp add: s2 t2)
  have r0: "run_plan ag e orch w = (Returned final, w2, tr1 @ tr2)"
    by (subst run_plan.simps) (simp add: s1 t1 r1)
  have err: "\<forall>m v. d2 = Some m \<and> m ''error'' = Some v \<and> v \<noteq> PNone \<longrightarrow>
              exec_context final ''error'' = Some v"
    by (auto simp: x2 merge_into_def merge_result_data_def in_keys_to_clear_def map_add_def
        split: option.splits)
  from r0 t2 b2 p2 c2 x2 g1 g2 err show ?thesis
    by (intro exI [of _ final]) simp
qed


lemma scripted_generate_run:
  "execute_action full_agent scripted_env
     \<lparr> step_action_type = Some (PStr ''generate_text_content''),
       step_parameters = [''prompt_for_generation'' \<mapsto> PStr ''hi''] \<rparr> ctx w =
     (Returned (True, Some [''generated_text_content'' \<mapsto> PStr ''Hello'',
        ''info'' \<mapsto> PStr ''Text content generated.'']), w,
      [GenerateText ''hi'' (Some ''Hello'')])"
  by (simp add: execute_action_def get_action_type_def pre_action_checks_def full_agent_def
      action_handlers_def generate_text_content_def get_effective_target_title_def dget_def
      dget_default_def call_generate_text_def scripted_env_def fail_with_def post_process_def
      Let_def resolved_prompts error_in_texts del: resolve_context_variable.simps(2))

lemma scripted_navigate_run:
  "execute_action full_agent scripted_env
     \<lparr> step_action_type = Some (PStr ''navigate_url''), step_parameters = Map.empty \<rparr> ctx w =
     (Returned (False, Some [''info'' \<mapsto> PStr ''Web nav not implemented.'',
        ''error'' \<mapsto> PStr ''Action 'navigate_url' failed.'']), w, [])"
  by (simp add: execute_action_def navigate_url_step post_process_def quoted_def Let_def)

lemma three_step_context:
  "merge_into (merge_into Map.empty
       (Some [''generated_text_content'' \<mapsto> PStr ''Hello'',
              ''info'' \<mapsto> PStr ''Text content generated.'']))
     (Some [''info'' \<mapsto> PStr ''Web nav not implemented.'',
            ''error'' \<mapsto> PStr ''Action 'navigate_url' failed.'']) =
   [''generated_text_content'' \<mapsto> PStr ''Hello'',
    ''info'' \<mapsto> PStr ''Web nav not implemented.'',
    ''error'' \<mapsto> PStr ''Action 'navigate_url' failed.'']"
  by (rule ext) (simp add: merge_into_def merge_result_data_def in_keys_to_clear_def map_add_def)

lemma three_step_signals:
  "action_error_signals Map.empty
     (Some [''generated_text_content'' \<mapsto> PStr ''Hello'',
            ''info'' \<mapsto> PStr ''Text content generated.'']) = []"
  "action_error_signals ctx
     (Some [''info'' \<mapsto> PStr ''Web nav not implemented.'',
            ''error'' \<mapsto> PStr ''Action 'navigate_url' failed.'']) =
   [(''Action Error: Action 'navigate_url' failed.'', ''error'')]"
  by (simp_all add: action_error_signals_def merge_result_data_def in_keys_to_clear_def dget_def
      Let_def)

theorem failing_second_step_halts_plan_witness:
  "\<exists>final. run_plan full_agent scripted_env (start_plan three_step_plan Map.empty) () =
             (Returned final, (), [GenerateText ''hi'' (Some ''Hello'')]) \<and>
     \<not> is_busy final \<and> current_plan final = [] \<and> current_step_index final = 0 \<and>
     exec_context final =
       [''generated_text_content'' \<mapsto> PStr ''Hello'',
        ''info'' \<mapsto> PStr ''Web nav not implemented.'',
        ''error'' \<mapsto> PStr ''Action 'navigate_url' failed.''] \<and>
     status_signals final =
       [(''Executing Step 1/3: generate_text_content'', ''info''),
        (''Executing Step 2/3: navigate_url'', ''info''),
        (''Action Error: Action 'navigate_url' failed.'', ''error''),
        (''Error at step 2 ('navigate_url'). Halting.'', ''error''),
        (''Plan finished (halted/failed).'', ''warning'')]"
proof -
  let ?s1 = "\<lparr> step_action_type = Some (PStr ''generate_text_content''),
       step_parameters = [''prompt_for_generation'' \<mapsto> PStr ''hi''] \<rparr>"
  let ?s2 = "\<lparr> step_action_type = Some (PStr ''navigate_url''), step_parameters = Map.empty \<rparr>"
  let ?d1 = "Some [''generated_text_content'' \<mapsto> PStr ''Hello'',
        ''info'' \<mapsto> PStr ''Text content generated.'']"
  let ?d2 = "Some [''info'' \<mapsto> PStr ''Web nav not implemented.'',
        ''error'' \<mapsto> PStr ''Action 'navigate_url' failed.'']"
  let ?o = "start_plan three_step_plan Map.empty"
  have plan: "current_plan ?o = [?s1, ?s2, ?s1]" and idx: "current_step_index ?o = 0"
    and ctx: "exec_context ?o = Map.empty" and sig: "status_signals ?o = []"
    by (simp_all add: start_plan_def three_step_plan_def)
  have e1: "execute_action full_agent scripted_env ?s1 (exec_context ?o) () =
      (Returned (True, ?d1), (), [GenerateText ''hi'' (Some ''Hello'')])"
    by (rule scripted_generate_run)
  have e2: "execute_action full_agent scripted_env ?s2 (merge_into (exec_context ?o) ?d1) () =
      (Returned (False, ?d2), (), [])"
    by (rule scripted_navigate_run)
  from failing_second_step_halts_plan [OF plan idx e1 e2] show ?thesis
    apply (simp add: ctx sig three_step_context three_step_signals get_action_type_log_def quoted_def)
    apply (elim exE conjE, rule exI, intro conjI, assumption+)
    done
qed


text \<open>
  The claim as stated fails on the plan \<open>three_step_plan\<close>, whose second step
  \<open>navigate_url\<close> returns without success: after the run the cursor is 0, not at the
  second step, and the context holds the \<open>info\<close> and \<open>error\<close> entries of the failing step,
  while the context after step 1 alone has no \<open>error\<close> and another \<open>info\<close>.
\<close>

theorem halted_plan_keeps_failing_step_data:
  "run_plan full_agent scripted_env (start_plan three_step_plan Map.empty) () =
     (Returned \<lparr> is_busy = False, current_plan = [], current_step_index = 0,
        exec_context =
          [''generated_text_content'' \<mapsto> PStr ''Hello'',
           ''info'' \<mapsto> PStr ''Web nav not implemented.'',
           ''error'' \<mapsto> PStr ''Action 'navigate_url' failed.''],
        status_signals =
          [(''Executing Step 1/3: generate_text_content'', ''info''),
           (''Executing Step 2/3: navigate_url'', ''info''),
           (''Action Error: Action 'navigate_url' failed.'', ''error''),
           (''Error at step 2 ('navigate_url'). Halting.'', ''error''),
           (''Plan finished (halted/failed).'', ''warning'')],
        timer_scheduled = False \<rparr>, (), [GenerateText ''hi'' (Some ''Hello'')]) \<and>
   merge_into Map.empty
     (Some [''generated_text_content'' \<mapsto> PStr ''Hello'',
            ''info'' \<mapsto> PStr ''Text content generated.'']) ''error'' = None \<and>
   merge_into Map.empty
     (Some [''generated_text_content'' \<mapsto> PStr ''Hello'',
            ''info'' \<mapsto> PStr ''Text content generated.'']) ''info'' =
     Some (PStr ''Text content generated.'')"
proof -
  let ?s1 = "\<lparr> step_action_type = Some (PStr ''generate_text_content''),
       step_parameters = [''prompt_for_generation'' \<mapsto> PStr ''hi''] \<rparr>"
  let ?s2 = "\<lparr> step_action_type = Some (PStr ''navigate_url''), step_parameters = Map.empty \<rparr>"
  let ?d1 = "Some [''generated_text_content'' \<mapsto> PStr ''Hello'',
        ''info'' \<mapsto> PStr ''Text content generated.'']"
  let ?d2 = "Some [''info'' \<mapsto> PStr ''Web nav not implemented.'',
        ''error'' \<mapsto> PStr ''Action 'navigate_url' failed.'']"
  let ?o0 = "(start_plan three_step_plan Map.empty)\<lparr> timer_scheduled := False \<rparr>"
  have i0: "current_step_index ?o0 < length (current_plan ?o0)"
    by (simp add: start_plan_def three_step_plan_def)
  have e0: "execute_action full_agent scripted_env (current_plan ?o0 ! current_step_index ?o0)
              (exec_context ?o0) () =
            (Returned (True, ?d1), (), [GenerateText ''hi'' (Some ''Hello'')])"
    by (simp add: start_plan_def three_step_plan_def scripted_generate_run)
  from step_succeeds [OF i0 e0] obtain orch1 where
    s1: "execute_next_plan_step full_agent scripted_env ?o0 () =
           (Returned orch1, (), [GenerateText ''hi'' (Some ''Hello'')])"
    and t1: "timer_scheduled orch1" and p1: "current_plan orch1 = [?s1, ?s2, ?s1]"
    and c1: "current_step_index orch1 = 1"
    and x1: "exec_context orch1 = merge_into Map.empty ?d1"
    and g1: "status_signals orch1 =
               [(''Executing Step 1/3: generate_text_content'', ''info'')]"
    by (auto simp: start_plan_def three_step_plan_def str_nat_small three_step_signals
        get_action_type_log_def)
  let ?o1 = "orch1\<lparr> timer_scheduled := False \<rparr>"
  have i1: "current_step_index ?o1 < length (current_plan ?o1)"
    using p1 c1 by simp
  have e1: "execute_action full_agent scripted_env (current_plan ?o1 ! current_step_index ?o1)
              (exec_context ?o1) () = (Returned (False, ?d2), (), [])"
    using p1 c1 by (simp add: scripted_navigate_run)
  from step_fails [OF i1 e1] obtain final where
    s2: "execute_next_plan_step full_agent scripted_env ?o1 () = (Returned final, (), [])"
    and t2: "\<not> timer_scheduled final" and b2: "\<not> is_busy final"
    and p2: "current_plan final = []" and c2: "current_step_index final = 0"
    and x2: "exec_context final = merge_into (merge_into Map.empty ?d1) ?d2"
    and g2: "status_signals final =
          [(''Executing Step 1/3: generate_text_content'', ''info''),
           (''Executing Step 2/3: navigate_url'', ''info''),
           (''Action Error: Action 'navigate_url' failed.'', ''error''),
           (''Error at step 2 ('navigate_url'). Halting.'', ''error''),
           (''Plan finished (halted/failed).'', ''warning'')]"
    using p1 c1 x1 g1
    by (auto simp: str_nat_small three_step_signals get_action_type_log_def quoted_def)
  have final: "final = \<lparr> is_busy = False, current_plan = [], current_step_index = 0,
        exec_context =
          [''generated_text_content'' \<mapsto> PStr ''Hello'',
           ''info'' \<mapsto> PStr ''Web nav not implemented.'',
           ''error'' \<mapsto> PStr ''Action 'navigate_url' failed.''],
        status_signals =
          [(''Executing Step 1/3: generate_text_content'', ''info''),
           (''Executing Step 2/3: navigate_url'', ''info''),
           (''Action Error: Action 'navigate_url' failed.'', ''error''),
           (''Error at step 2 ('navigate_url'). Halting.'', ''error''),
           (''Plan finished (halted/failed).'', ''warning'')],
        timer_scheduled = False \<rparr>"
    by (rule orchestrator.equality) (simp_all add: t2 b2 p2 c2 x2 g2 three_step_context)
  have r1: "run_plan full_agent scripted_env orch1 () = (Returned final, (), [])"
    by (subst run_plan.simps) (simp add: s2 t2)
  have r0: "run_plan full_agent scripted_env (start_plan three_step_plan Map.empty) () =
      (Returned final, (), [GenerateText ''hi'' (Some ''Hello'')])"
    by (subst run_plan.simps) (simp add: s1 t1 r1)
  have after1: "merge_into Map.empty ?d1 ''error'' = None"
    "merge_into Map.empty ?d1 ''info'' = Some (PStr ''Text content generated.'')"
    by (simp_all add: merge_into_def merge_result_data_def in_keys_to_clear_def map_add_def)
  from r0 final after1 show ?thesis
    by simp
qed

end
